theory Spec2Isabelle
  imports Complex_Main
begin

section \<open>Python values, errors and the remote endpoint\<close>

text \<open>
  The wrapper class \<open>VibrationVIEW\<close> of \<open>vibrationviewapi.py\<close> forwards every call to a COM
  automation object. Exceptions are values of \<open>py_error\<close>; a computation that may raise
  returns \<open>py_error + 'a\<close> with \<open>Inl\<close> the exception. Floats are carried as the rationals
  they denote; the ones the wrapper creates (\<open>0.0\<close>, \<open>0.5\<close> and its doublings) are exact
  dyadic numbers.
\<close>

datatype py_error = AttributeError | TypeError | ValueError | IndexError | KeyError
  | com_error int

datatype pyval = VNone | VBool bool | VInt int | VFloat rat | VStr string
  | VList "pyval list" | VTuple "pyval list" | VDict "(string \<times> pyval) list"
  | VErrorInfo py_error

text \<open>One interaction with the COM object: a property read, a property write, a method call.\<close>

datatype interaction = PropGet string | PropPut string pyval | Invoke string "pyval list"

type_synonym response = "py_error + pyval"

type_synonym trace = "(interaction \<times> response) list"

text \<open>
  The endpoint is external and stateful: its answer to an interaction may depend on every
  interaction made before.
\<close>

type_synonym endpoint = "trace \<Rightarrow> interaction \<Rightarrow> response"

text \<open>Python truthiness (\<open>bool(x)\<close>, \<open>if x\<close>, \<open>x and y\<close>).\<close>

fun truthy :: "pyval \<Rightarrow> bool" where
  "truthy VNone = False"
| "truthy (VBool b) = b"
| "truthy (VInt i) = (i \<noteq> 0)"
| "truthy (VFloat r) = (r \<noteq> 0)"
| "truthy (VStr s) = (s \<noteq> [])"
| "truthy (VList xs) = (xs \<noteq> [])"
| "truthy (VTuple xs) = (xs \<noteq> [])"
| "truthy (VDict kvs) = (kvs \<noteq> [])"
| "truthy (VErrorInfo e) = True"

text \<open>\<open>range(n)\<close>: an integer (or bool) is required; a negative bound gives the empty range.\<close>

fun py_range :: "pyval \<Rightarrow> py_error + pyval list" where
  "py_range (VInt n) = Inr (map (\<lambda>i. VInt (int i)) [0..<nat n])"
| "py_range (VBool b) = Inr (map (\<lambda>i. VInt (int i)) [0..<(if b then 1 else 0)])"
| "py_range v = Inl TypeError"

text \<open>\<open>[0.0] * n\<close>: list repetition needs an integer count; a negative count gives \<open>[]\<close>.\<close>

fun py_zeros :: "pyval \<Rightarrow> py_error + pyval" where
  "py_zeros (VInt n) = Inr (VList (replicate (nat n) (VFloat 0)))"
| "py_zeros (VBool b) = Inr (VList (replicate (if b then 1 else 0) (VFloat 0)))"
| "py_zeros v = Inl TypeError"

text \<open>Iteration \<open>for item in v\<close> and unpacking.\<close>

fun py_iter :: "pyval \<Rightarrow> py_error + pyval list" where
  "py_iter (VList xs) = Inr xs"
| "py_iter (VTuple xs) = Inr xs"
| "py_iter (VStr s) = Inr (map (\<lambda>c. VStr [c]) s)"
| "py_iter (VDict kvs) = Inr (map (\<lambda>kv. VStr (fst kv)) kvs)"
| "py_iter v = Inl TypeError"

text \<open>Subscription \<open>v[i]\<close> with a literal index \<open>0\<close> or \<open>1\<close>.\<close>

fun py_index :: "pyval \<Rightarrow> nat \<Rightarrow> py_error + pyval" where
  "py_index (VList xs) i = (if i < length xs then Inr (xs ! i) else Inl IndexError)"
| "py_index (VTuple xs) i = (if i < length xs then Inr (xs ! i) else Inl IndexError)"
| "py_index (VStr s) i = (if i < length s then Inr (VStr [s ! i]) else Inl IndexError)"
| "py_index (VDict kvs) i = Inl KeyError"
| "py_index v i = Inl TypeError"

text \<open>
  A Python float is carried as the exact rational value of a finite IEEE 754 double
  (infinities and NaN are outside the model). Float arithmetic rounds the exact result to
  the nearest double, ties to even: 53 significant bits, exponents from \<open>-1022\<close>. \<open>bits n\<close>
  is the bit length of \<open>n\<close>.
\<close>

definition two_to :: "int \<Rightarrow> rat" where
  "two_to k = (if 0 \<le> k then 2 ^ nat k else 1 / 2 ^ nat (- k))"

definition round_half_even :: "rat \<Rightarrow> int" where
  "round_half_even x =
     (let f = \<lfloor>x\<rfloor>; d = x - of_int f
      in if d < 1 / 2 then f else if 1 / 2 < d then f + 1 else if even f then f else f + 1)"

function bits :: "int \<Rightarrow> int" where
  "bits n = (if n \<le> 0 then 0 else 1 + bits (n div 2))"
  by pat_completeness auto
termination
  by (relation "measure nat") auto

definition round_double :: "rat \<Rightarrow> rat" where
  "round_double x =
     (if x = 0 then 0
      else (let m = \<bar>x\<bar>;
                k = bits (fst (quotient_of m)) - bits (snd (quotient_of m));
                e = (if two_to k \<le> m then k else k - 1);
                q = two_to (max e (- 1022) - 52)
            in sgn x * of_int (round_half_even (m / q)) * q))"

text \<open>\<open>channel + 1\<close>; on a float the integer \<open>1\<close> becomes \<open>1.0\<close> and the sum is rounded.\<close>

fun py_add_one :: "pyval \<Rightarrow> py_error + pyval" where
  "py_add_one (VInt n) = Inr (VInt (n + 1))"
| "py_add_one (VBool b) = Inr (VInt ((if b then 1 else 0) + 1))"
| "py_add_one (VFloat r) = Inr (VFloat (round_double (r + 1)))"
| "py_add_one v = Inl TypeError"

text \<open>
  \<open>int(value)\<close>. An integer is itself, a bool is 0 or 1, a float is truncated towards zero.
  A string (of ASCII characters) is stripped of surrounding whitespace and must then be an
  optional sign followed by decimal digits, with single underscores allowed between
  digits; anything else raises ValueError, and so does a literal of more than
  \<open>int_max_str_digits\<close> digits (the interpreter's default limit). Every other value
  raises TypeError.
\<close>

definition is_space :: "char \<Rightarrow> bool" where
  "is_space c = (let n = (of_char c :: nat) in (9 \<le> n \<and> n \<le> 13) \<or> n = 32)"

definition digit_of :: "char \<Rightarrow> nat option" where
  "digit_of c = (let n = (of_char c :: nat) in if 48 \<le> n \<and> n \<le> 57 then Some (n - 48) else None)"

definition int_max_str_digits :: nat where
  "int_max_str_digits = 4300"

text \<open>
  The digits of a literal: the value read so far, the number of digits read, and whether
  the previous character was an underscore.
\<close>

fun parse_digits :: "string \<Rightarrow> int \<Rightarrow> nat \<Rightarrow> bool \<Rightarrow> (int \<times> nat) option" where
  "parse_digits [] acc count after_underscore =
     (if after_underscore \<or> count = 0 then None else Some (acc, count))"
| "parse_digits (c # cs) acc count after_underscore =
     (if c = CHR ''_'' then
        (if after_underscore \<or> count = 0 then None else parse_digits cs acc count True)
      else (case digit_of c of
              None \<Rightarrow> None
            | Some d \<Rightarrow> parse_digits cs (acc * 10 + int d) (Suc count) False))"

definition int_of_string :: "string \<Rightarrow> py_error + int" where
  "int_of_string s =
     (let t = rev (dropWhile is_space (rev (dropWhile is_space s)));
          negative = (case t of [] \<Rightarrow> False | c # cs \<Rightarrow> c = CHR ''-'');
          body = (case t of [] \<Rightarrow> [] | c # cs \<Rightarrow> if c = CHR ''-'' \<or> c = CHR ''+'' then cs else t)
      in case parse_digits body 0 0 False of
           None \<Rightarrow> Inl ValueError
         | Some (v, count) \<Rightarrow>
             if int_max_str_digits < count then Inl ValueError
             else Inr (if negative then - v else v))"

fun py_int :: "pyval \<Rightarrow> py_error + int" where
  "py_int (VInt n) = Inr n"
| "py_int (VBool b) = Inr (if b then 1 else 0)"
| "py_int (VFloat r) = Inr (if r < 0 then - \<lfloor>- r\<rfloor> else \<lfloor>r\<rfloor>)"
| "py_int (VStr s) = int_of_string s"
| "py_int v = Inl TypeError"

text \<open>
  Modelled from the spec: \<open>comhelper.ExtractComErrorInfo\<close> is imported by the wrapper but its
  module is not among the sources. The spec says it accepts any failure object, returns a
  normalized (message, code, source) record and never fails itself; the record is kept
  abstract here as \<open>VErrorInfo\<close> of the failure.
\<close>

definition ExtractComErrorInfo :: "py_error \<Rightarrow> pyval" where
  "ExtractComErrorInfo e = VErrorInfo e"

section \<open>The world outside the object and the session object\<close>

text \<open>
  \<open>calls\<close> records every interaction with the endpoint and its answer, \<open>slept\<close> every
  \<open>time.sleep\<close> duration. \<open>threads t\<close> is the attribute \<open>threads\<close> of the
  \<open>threading.local()\<close> object \<open>_com_initialized\<close> as thread \<open>t\<close> sees it (\<open>None\<close> while the
  attribute does not exist). The two counters record the calls of
  \<open>pythoncom.CoInitialize\<close> and \<open>pythoncom.CoUninitialize\<close> made on each thread.
\<close>

record world =
  calls :: trace
  slept :: "rat list"
  threads :: "nat \<Rightarrow> nat set option"
  CoInitialize_calls :: "nat \<Rightarrow> nat"
  CoUninitialize_calls :: "nat \<Rightarrow> nat"

text \<open>
  The instance attributes. \<open>vv = None\<close>: the attribute \<open>self.vv\<close> was never assigned;
  \<open>vv = Some None\<close>: \<open>self.vv is None\<close>; \<open>vv = Some (Some ep)\<close>: a COM object. Likewise
  \<open>initialized_com\<close> for \<open>self._initialized_com\<close>.
\<close>

record VibrationVIEW =
  vv :: "endpoint option option"
  initialized_com :: "bool option"

type_synonym 'a comp = "world \<Rightarrow> (py_error + 'a) \<times> world"

definition return_c :: "'a \<Rightarrow> 'a comp" where
  "return_c x w = (Inr x, w)"

definition lift_c :: "py_error + 'a \<Rightarrow> 'a comp" where
  "lift_c r w = (r, w)"

definition bind_c :: "'a comp \<Rightarrow> ('a \<Rightarrow> 'b comp) \<Rightarrow> 'b comp" where
  "bind_c m f w = (case m w of (Inl e, w') \<Rightarrow> (Inl e, w') | (Inr x, w') \<Rightarrow> f x w')"

text \<open>\<open>try: m except Exception as e: h e\<close>.\<close>

definition try_c :: "'a comp \<Rightarrow> (py_error \<Rightarrow> 'a comp) \<Rightarrow> 'a comp" where
  "try_c m h w = (case m w of (Inl e, w') \<Rightarrow> h e w' | (Inr x, w') \<Rightarrow> (Inr x, w'))"

text \<open>
  \<open>self.vv.<member>\<close>: reading \<open>self.vv\<close> raises AttributeError when the attribute is
  missing, and any member access on \<open>None\<close> raises AttributeError as well.
\<close>

definition self_vv :: "VibrationVIEW \<Rightarrow> py_error + endpoint" where
  "self_vv self = (case vv self of
       None \<Rightarrow> Inl AttributeError
     | Some None \<Rightarrow> Inl AttributeError
     | Some (Some ep) \<Rightarrow> Inr ep)"

definition ask :: "endpoint \<Rightarrow> interaction \<Rightarrow> pyval comp" where
  "ask ep i w = (let r = ep (calls w) i in (r, w\<lparr>calls := calls w @ [(i, r)]\<rparr>))"

definition remote :: "VibrationVIEW \<Rightarrow> interaction \<Rightarrow> pyval comp" where
  "remote self i = bind_c (lift_c (self_vv self)) (\<lambda>ep. ask ep i)"

section \<open>Construction, destruction and close\<close>

text \<open>
  \<open>pythoncom.CoInitialize()\<close> and \<open>pythoncom.CoUninitialize()\<close> act on the calling thread;
  the model counts the calls.
\<close>

definition CoInitialize :: "nat \<Rightarrow> world \<Rightarrow> world" where
  "CoInitialize t w = w\<lparr>CoInitialize_calls := (CoInitialize_calls w)(t := Suc (CoInitialize_calls w t))\<rparr>"

definition CoUninitialize :: "nat \<Rightarrow> world \<Rightarrow> world" where
  "CoUninitialize t w = w\<lparr>CoUninitialize_calls := (CoUninitialize_calls w)(t := Suc (CoUninitialize_calls w t))\<rparr>"

text \<open>
  Lines 25 to 33 of \<open>__init__\<close>, run on thread \<open>thread_id\<close>:
  \<^verbatim>\<open>
  if not hasattr(self._com_initialized, 'threads') or thread_id not in self._com_initialized.threads:
      pythoncom.CoInitialize()
      if not hasattr(self._com_initialized, 'threads'):
          self._com_initialized.threads = set()
      self._com_initialized.threads.add(thread_id)
      self._initialized_com = True
  else:
      self._initialized_com = False
  \<close>
\<close>

definition in_threads :: "nat \<Rightarrow> world \<Rightarrow> bool" where
  "in_threads t w = (case threads w t of None \<Rightarrow> False | Some S \<Rightarrow> t \<in> S)"

definition init_com :: "nat \<Rightarrow> VibrationVIEW \<Rightarrow> world \<Rightarrow> VibrationVIEW \<times> world" where
  "init_com thread_id self w =
     (if \<not> in_threads thread_id w then
        (let w1 = CoInitialize thread_id w;
             S = (case threads w1 thread_id of None \<Rightarrow> {} | Some S \<Rightarrow> S);
             w2 = w1\<lparr>threads := (threads w1)(thread_id := Some (insert thread_id S))\<rparr>
         in (self\<lparr>initialized_com := Some True\<rparr>, w2))
      else (self\<lparr>initialized_com := Some False\<rparr>, w))"

definition retryAttempts :: nat where
  "retryAttempts = 5"

text \<open>
  The retry loop of \<open>__init__\<close> over \<open>range(1, retryAttempts + 1)\<close>; \<open>vv\<close> is the object
  \<open>Dispatch\<close> returned (a COM dispatch object is always truthy, so \<open>vv and vv.IsReady\<close> is
  \<open>vv.IsReady\<close>):
  \<^verbatim>\<open>
  for attempt in range(1, retryAttempts + 1):
      try:
          if vv and vv.IsReady:
              self.vv = vv
              return
      except Exception as e:
          if attempt == retryAttempts:
              break
      time.sleep(waitTime)
      waitTime *= 2
  \<close>
\<close>

fun connect_attempts ::
  "endpoint \<Rightarrow> nat list \<Rightarrow> rat \<Rightarrow> VibrationVIEW \<Rightarrow> world \<Rightarrow> VibrationVIEW \<times> world" where
  "connect_attempts ep [] waitTime self w = (self, w)"
| "connect_attempts ep (attempt # rest) waitTime self w =
     (case ask ep (PropGet ''IsReady'') w of
        (Inr ready, w1) \<Rightarrow>
          if truthy ready then (self\<lparr>vv := Some (Some ep)\<rparr>, w1)
          else connect_attempts ep rest (waitTime * 2) self (w1\<lparr>slept := slept w1 @ [waitTime]\<rparr>)
      | (Inl e, w1) \<Rightarrow>
          if attempt = retryAttempts then (self, w1)
          else connect_attempts ep rest (waitTime * 2) self (w1\<lparr>slept := slept w1 @ [waitTime]\<rparr>))"

text \<open>
  \<open>__init__\<close> on thread \<open>thread_id\<close>; \<open>dispatch\<close> is the outcome of
  \<open>win32com.client.Dispatch('VibrationVIEW.TestControl')\<close>. When it raises, the outer handler
  prints and assigns the local variable \<open>vv = None\<close>; no attribute of \<open>self\<close> is assigned.
\<close>

definition new_object :: VibrationVIEW where
  "new_object = \<lparr>vv = None, initialized_com = None\<rparr>"

definition VibrationVIEW_init :: "nat \<Rightarrow> py_error + endpoint \<Rightarrow> world \<Rightarrow> VibrationVIEW \<times> world" where
  "VibrationVIEW_init thread_id dispatch w =
     (case init_com thread_id new_object w of (self, w1) \<Rightarrow>
        (case dispatch of
           Inl e \<Rightarrow> (self, w1)
         | Inr ep \<Rightarrow> connect_attempts ep [1..<Suc retryAttempts] (1 / 2) self w1))"

text \<open>The liveness check of the callers (\<open>conftest.py\<close>, \<open>app.py\<close>): \<open>connection.vv is None\<close>.\<close>

definition vv_is_None :: "VibrationVIEW \<Rightarrow> py_error + bool" where
  "vv_is_None self = (case vv self of
       None \<Rightarrow> Inl AttributeError
     | Some None \<Rightarrow> Inr True
     | Some (Some ep) \<Rightarrow> Inr False)"

text \<open>\<open>hasattr(self, 'vv') and self.vv is not None\<close>.\<close>

definition has_live_vv :: "VibrationVIEW \<Rightarrow> py_error + bool" where
  "has_live_vv self =
     (case vv self of
        None \<Rightarrow> Inr False
      | Some h \<Rightarrow> (case vv_is_None self of Inl e \<Rightarrow> Inl e | Inr b \<Rightarrow> Inr (\<not> b)))"

text \<open>
  \<^verbatim>\<open>
  def close(self):
      if hasattr(self, 'vv') and self.vv is not None:
          self.vv = None
      pythoncom.CoUninitialize()
  \<close>
\<close>

definition close :: "nat \<Rightarrow> VibrationVIEW \<Rightarrow> VibrationVIEW comp" where
  "close thread_id self =
     bind_c (lift_c (has_live_vv self)) (\<lambda>live.
       (\<lambda>w. (Inr (if live then self\<lparr>vv := Some None\<rparr> else self), CoUninitialize thread_id w)))"

text \<open>
  \<open>__del__\<close>, run on thread \<open>thread_id\<close>; the whole body is inside \<open>try: ... except: pass\<close>:
  \<^verbatim>\<open>
  if hasattr(self, 'vv') and self.vv is not None:
      self.vv = None
  thread_id = threading.get_ident()
  if hasattr(self, '_initialized_com') and self._initialized_com:
      if hasattr(self._com_initialized, 'threads') and thread_id in self._com_initialized.threads:
          self._com_initialized.threads.remove(thread_id)
          pythoncom.CoUninitialize()
          self._initialized_com = False
  \<close>
\<close>

definition del :: "nat \<Rightarrow> VibrationVIEW \<Rightarrow> world \<Rightarrow> VibrationVIEW \<times> world" where
  "del thread_id self w =
     (case has_live_vv self of
        Inl e \<Rightarrow> (self, w)
      | Inr live \<Rightarrow>
         (let self1 = (if live then self\<lparr>vv := Some None\<rparr> else self) in
          if initialized_com self1 = Some True \<and> in_threads thread_id w then
            (let S = (case threads w thread_id of None \<Rightarrow> {} | Some S \<Rightarrow> S);
                 w1 = w\<lparr>threads := (threads w)(thread_id := Some (S - {thread_id}))\<rparr>;
                 w2 = CoUninitialize thread_id w1
             in (self1\<lparr>initialized_com := Some False\<rparr>, w2))
          else (self1, w)))"

section \<open>The typed call surface\<close>

definition invoke :: "VibrationVIEW \<Rightarrow> string \<Rightarrow> pyval list \<Rightarrow> pyval comp" where
  "invoke self name args = remote self (Invoke name args)"

definition prop_get :: "VibrationVIEW \<Rightarrow> string \<Rightarrow> pyval comp" where
  "prop_get self name = remote self (PropGet name)"

definition prop_put :: "VibrationVIEW \<Rightarrow> string \<Rightarrow> pyval \<Rightarrow> pyval comp" where
  "prop_put self name v = remote self (PropPut name v)"

text \<open>\<open>bool(self.vv.<name>)\<close>.\<close>

definition bool_prop :: "VibrationVIEW \<Rightarrow> string \<Rightarrow> pyval comp" where
  "bool_prop self name = bind_c (prop_get self name) (\<lambda>v. return_c (VBool (truthy v)))"

fun is_None :: "pyval \<Rightarrow> bool" where
  "is_None VNone = True"
| "is_None v = False"

subsection \<open>Basic control\<close>

definition RunTest :: "VibrationVIEW \<Rightarrow> pyval \<Rightarrow> pyval comp" where
  "RunTest self testName = invoke self ''RunTest'' [testName]"

definition OpenTest :: "VibrationVIEW \<Rightarrow> pyval \<Rightarrow> pyval comp" where
  "OpenTest self testName = invoke self ''OpenTest'' [testName]"

definition EditTest :: "VibrationVIEW \<Rightarrow> pyval \<Rightarrow> pyval comp" where
  "EditTest self testName = invoke self ''EditTest'' [testName]"

definition StartTest :: "VibrationVIEW \<Rightarrow> pyval comp" where
  "StartTest self = invoke self ''StartTest'' []"

definition StopTest :: "VibrationVIEW \<Rightarrow> pyval comp" where
  "StopTest self = invoke self ''StopTest'' []"

definition AbortEdit :: "VibrationVIEW \<Rightarrow> pyval comp" where
  "AbortEdit self = invoke self ''AbortEdit'' []"

definition SaveData :: "VibrationVIEW \<Rightarrow> pyval \<Rightarrow> pyval comp" where
  "SaveData self filename = invoke self ''SaveData'' [filename]"

definition Minimize :: "VibrationVIEW \<Rightarrow> pyval comp" where
  "Minimize self = invoke self ''Minimize'' []"

definition Restore :: "VibrationVIEW \<Rightarrow> pyval comp" where
  "Restore self = invoke self ''Restore'' []"

definition Maximize :: "VibrationVIEW \<Rightarrow> pyval comp" where
  "Maximize self = invoke self ''Maximize'' []"

definition Activate :: "VibrationVIEW \<Rightarrow> pyval comp" where
  "Activate self = invoke self ''Activate'' []"

definition MenuCommand :: "VibrationVIEW \<Rightarrow> pyval \<Rightarrow> pyval comp" where
  "MenuCommand self id' = invoke self ''MenuCommand'' [id']"

subsection \<open>Status and properties\<close>

text \<open>
  \<^verbatim>\<open>
  stop_code, stop_code_index = self.vv.Status()
  return {'stop_code': stop_code, 'stop_code_index': stop_code_index}
  \<close>
  Unpacking raises TypeError on a value that is not iterable and ValueError unless it has
  exactly two elements.
\<close>

definition Status :: "VibrationVIEW \<Rightarrow> pyval comp" where
  "Status self =
     bind_c (invoke self ''Status'' []) (\<lambda>r.
     bind_c (lift_c (py_iter r)) (\<lambda>xs.
       (case xs of
          [stop_code, stop_code_index] \<Rightarrow>
             return_c (VDict [(''stop_code'', stop_code), (''stop_code_index'', stop_code_index)])
        | _ \<Rightarrow> lift_c (Inl ValueError))))"

definition IsRunning :: "VibrationVIEW \<Rightarrow> pyval comp" where
  "IsRunning self = bool_prop self ''Running''"

definition IsStarting :: "VibrationVIEW \<Rightarrow> pyval comp" where
  "IsStarting self = bool_prop self ''Starting''"

definition IsChangingLevel :: "VibrationVIEW \<Rightarrow> pyval comp" where
  "IsChangingLevel self = bool_prop self ''ChangingLevel''"

definition IsHoldLevel :: "VibrationVIEW \<Rightarrow> pyval comp" where
  "IsHoldLevel self = bool_prop self ''HoldLevel''"

definition IsOpenLoop :: "VibrationVIEW \<Rightarrow> pyval comp" where
  "IsOpenLoop self = bool_prop self ''OpenLoop''"

definition IsAborted :: "VibrationVIEW \<Rightarrow> pyval comp" where
  "IsAborted self = bool_prop self ''Aborted''"

definition CanResumeTest :: "VibrationVIEW \<Rightarrow> pyval comp" where
  "CanResumeTest self = bool_prop self ''CanResumeTest''"

definition IsReady :: "VibrationVIEW \<Rightarrow> pyval comp" where
  "IsReady self = bool_prop self ''IsReady''"

definition ResumeTest :: "VibrationVIEW \<Rightarrow> pyval comp" where
  "ResumeTest self = invoke self ''ResumeTest'' []"

subsection \<open>Hardware description\<close>

definition GetHardwareInputChannels :: "VibrationVIEW \<Rightarrow> pyval comp" where
  "GetHardwareInputChannels self = prop_get self ''HardwareInputChannels''"

definition GetHardwareOutputChannels :: "VibrationVIEW \<Rightarrow> pyval comp" where
  "GetHardwareOutputChannels self = prop_get self ''HardwareOutputChannels''"

definition GetHardwareSerialNumber :: "VibrationVIEW \<Rightarrow> pyval comp" where
  "GetHardwareSerialNumber self = prop_get self ''HardwareSerialNumber''"

definition GetSoftwareVersion :: "VibrationVIEW \<Rightarrow> pyval comp" where
  "GetSoftwareVersion self = prop_get self ''SoftwareVersion''"

subsection \<open>Data retrieval\<close>

text \<open>
  \<^verbatim>\<open>
  num_outputs = self.GetHardwareOutputChannels()
  arr = [0.0] * num_outputs
  arr =self.vv.Demand(arr)
  return arr
  \<close>
\<close>

definition Demand :: "VibrationVIEW \<Rightarrow> pyval comp" where
  "Demand self =
     bind_c (GetHardwareOutputChannels self) (\<lambda>num_outputs.
     bind_c (lift_c (py_zeros num_outputs)) (\<lambda>arr.
     invoke self ''Demand'' [arr]))"

text \<open>\<open>Control\<close>, \<open>Output\<close> and \<open>RearInput\<close> discard the call's result and return \<open>arr\<close>.\<close>

definition Control :: "VibrationVIEW \<Rightarrow> pyval comp" where
  "Control self =
     bind_c (GetHardwareOutputChannels self) (\<lambda>num_outputs.
     bind_c (lift_c (py_zeros num_outputs)) (\<lambda>arr.
     bind_c (invoke self ''Control'' [arr]) (\<lambda>_. return_c arr)))"

text \<open>
  \<^verbatim>\<open>
  try:
      num_channels = self.GetHardwareInputChannels()
      arr = [0.0] * num_channels
      arr = self.vv.Channel(arr)
      return arr
  except Exception as e:
      return []
  \<close>
\<close>

definition Channel :: "VibrationVIEW \<Rightarrow> pyval comp" where
  "Channel self =
     try_c (bind_c (GetHardwareInputChannels self) (\<lambda>num_channels.
            bind_c (lift_c (py_zeros num_channels)) (\<lambda>arr.
            invoke self ''Channel'' [arr])))
           (\<lambda>e. return_c (VList []))"

definition Output :: "VibrationVIEW \<Rightarrow> pyval comp" where
  "Output self =
     bind_c (GetHardwareOutputChannels self) (\<lambda>num_outputs.
     bind_c (lift_c (py_zeros num_outputs)) (\<lambda>arr.
     bind_c (invoke self ''Output'' [arr]) (\<lambda>_. return_c arr)))"

definition RearInput :: "VibrationVIEW \<Rightarrow> pyval comp" where
  "RearInput self =
     bind_c (lift_c (py_zeros (VInt 8))) (\<lambda>arr.
     bind_c (invoke self ''RearInput'' [arr]) (\<lambda>_. return_c arr))"

text \<open>
  The names the class \<open>VibrationVIEW\<close> and its instances define. \<open>self.<name>\<close> for any other
  name raises AttributeError (the class has no base class and no \<open>__getattr__\<close>).
\<close>

definition VibrationVIEW_attributes :: "string list" where
  "VibrationVIEW_attributes =
     [''_com_initialized'', ''__init__'', ''__del__'', ''close'', ''vv'', ''_initialized_com'',
      ''RunTest'', ''OpenTest'', ''EditTest'', ''StartTest'', ''StopTest'', ''AbortEdit'',
      ''SaveData'', ''Minimize'', ''Restore'', ''Maximize'', ''Activate'', ''MenuCommand'',
      ''Status'', ''IsRunning'', ''IsStarting'', ''IsChangingLevel'', ''IsHoldLevel'',
      ''IsOpenLoop'', ''IsAborted'', ''CanResumeTest'', ''IsReady'', ''ResumeTest'',
      ''Demand'', ''Control'', ''Channel'', ''Output'', ''Vector'', ''RearInput'',
      ''VectorUnit'', ''VectorLabel'', ''VectorLength'', ''ControlUnit'', ''ControlLabel'',
      ''ChannelUnit'', ''ChannelLabel'', ''ReportField'', ''RearInputUnit'', ''RearInputLabel'',
      ''Teds'', ''SweepUp'', ''SweepDown'', ''SweepStepUp'', ''SweepStepDown'', ''SweepHold'',
      ''SweepResonanceHold'', ''DemandMultiplier'', ''SweepMultiplier'', ''TestType'',
      ''SystemCheckFrequency'', ''SystemCheckOutputVoltage'', ''SineFrequency'',
      ''GetHardwareInputChannels'', ''GetHardwareOutputChannels'', ''GetHardwareSerialNumber'',
      ''GetSoftwareVersion'', ''InputCalDate'', ''InputSerialNumber'', ''InputCapacitorCoupled'',
      ''InputAccelPowerSource'', ''InputDifferential'', ''InputSensitivity'',
      ''InputEngineeringScale'', ''InputMode'', ''InputCalibration'',
      ''HardwareSupportsCapacitorCoupled'', ''HardwareSupportsAccelPowerSource'',
      ''HardwareSupportsDifferential'', ''GetActiveTest'', ''RecordStart'', ''RecordStop'',
      ''RecordPause'', ''RecordGetFilename'', ''SetInputConfigurationFile'']"

text \<open>\<open>self.log(message, False)\<close> in the handler of \<open>Vector\<close>: the lookup of \<open>log\<close> on \<open>self\<close>.\<close>

definition self_log :: "unit comp" where
  "self_log = lift_c (if ''log'' \<in> set VibrationVIEW_attributes then Inr () else Inl AttributeError)"

text \<open>
  \<open>vectorEnum\<close> is an \<open>int\<close> or a member of the integer enumeration \<open>vvVector\<close> (the
  annotation \<open>Union[int, vvVector]\<close>), so \<open>int(vectorEnum)\<close> is the same integer.
  \<^verbatim>\<open>
  rows = self.vv.VectorLength(vectorEnum);
  dataArray = [[0.0 for _ in range(columns)] for _ in range(rows)]
  try:
      arr = self.vv.Vector(dataArray, int(vectorEnum))
      return arr
  except Exception as e:
      self.log(f"Error retrieving data for vector {vectorEnum}: {str(e)}", False)
  return dataArray  # Return empty data if error occurs
  \<close>
  Inside the \<open>try\<close>, \<open>Some arr\<close> stands for the early \<open>return arr\<close> and \<open>None\<close> for falling
  through to \<open>return dataArray\<close>.
\<close>

definition zero_matrix :: "pyval list \<Rightarrow> int \<Rightarrow> pyval" where
  "zero_matrix rows_range columns =
     VList (map (\<lambda>_. VList (map (\<lambda>_. VFloat 0) [0..<nat columns])) rows_range)"

definition Vector :: "VibrationVIEW \<Rightarrow> int \<Rightarrow> int \<Rightarrow> pyval comp" where
  "Vector self vectorEnum columns =
     bind_c (invoke self ''VectorLength'' [VInt vectorEnum]) (\<lambda>rows.
     bind_c (lift_c (py_range rows)) (\<lambda>rows_range.
       (let dataArray = zero_matrix rows_range columns in
        bind_c (try_c (bind_c (invoke self ''Vector'' [dataArray, VInt vectorEnum])
                              (\<lambda>arr. return_c (Some arr)))
                      (\<lambda>e. bind_c self_log (\<lambda>_. return_c None)))
               (\<lambda>returned. case returned of
                   Some arr \<Rightarrow> return_c arr
                 | None \<Rightarrow> return_c dataArray))))"

definition VectorUnit :: "VibrationVIEW \<Rightarrow> int \<Rightarrow> pyval comp" where
  "VectorUnit self vectorEnum = invoke self ''VectorUnit'' [VInt vectorEnum]"

definition VectorLabel :: "VibrationVIEW \<Rightarrow> int \<Rightarrow> pyval comp" where
  "VectorLabel self vectorEnum = invoke self ''VectorLabel'' [VInt vectorEnum]"

definition VectorLength :: "VibrationVIEW \<Rightarrow> int \<Rightarrow> pyval comp" where
  "VectorLength self vectorEnum = invoke self ''VectorLength'' [VInt vectorEnum]"

definition ControlUnit :: "VibrationVIEW \<Rightarrow> pyval \<Rightarrow> pyval comp" where
  "ControlUnit self loopNum = invoke self ''ControlUnit'' [loopNum]"

definition ControlLabel :: "VibrationVIEW \<Rightarrow> pyval \<Rightarrow> pyval comp" where
  "ControlLabel self loopNum = invoke self ''ControlLabel'' [loopNum]"

definition ChannelUnit :: "VibrationVIEW \<Rightarrow> pyval \<Rightarrow> pyval comp" where
  "ChannelUnit self channelNum = invoke self ''ChannelUnit'' [channelNum]"

definition ChannelLabel :: "VibrationVIEW \<Rightarrow> pyval \<Rightarrow> pyval comp" where
  "ChannelLabel self channelNum = invoke self ''ChannelLabel'' [channelNum]"

definition ReportField :: "VibrationVIEW \<Rightarrow> pyval \<Rightarrow> pyval comp" where
  "ReportField self fieldName = invoke self ''ReportField'' [fieldName]"

definition RearInputUnit :: "VibrationVIEW \<Rightarrow> pyval \<Rightarrow> pyval comp" where
  "RearInputUnit self channel = invoke self ''RearInputUnit'' [channel]"

definition RearInputLabel :: "VibrationVIEW \<Rightarrow> pyval \<Rightarrow> pyval comp" where
  "RearInputLabel self channel = invoke self ''RearInputLabel'' [channel]"

subsection \<open>TEDS retrieval\<close>

text \<open>
  The condition of the comprehension
  \<^verbatim>\<open>teds_info_clean = [item for item in tedsInfo if item[0] and item[1]]\<close>
  \<open>and\<close> evaluates \<open>item[1]\<close> only when \<open>item[0]\<close> is truthy.
\<close>

definition row_kept :: "pyval \<Rightarrow> py_error + bool" where
  "row_kept item =
     (case py_index item 0 of
        Inl e \<Rightarrow> Inl e
      | Inr k \<Rightarrow>
          if truthy k then (case py_index item 1 of Inl e \<Rightarrow> Inl e | Inr v \<Rightarrow> Inr (truthy v))
          else Inr False)"

fun teds_info_clean :: "pyval list \<Rightarrow> py_error + pyval list" where
  "teds_info_clean [] = Inr []"
| "teds_info_clean (item # items) =
     (case row_kept item of
        Inl e \<Rightarrow> Inl e
      | Inr keep \<Rightarrow>
          (case teds_info_clean items of
             Inl e \<Rightarrow> Inl e
           | Inr rest \<Rightarrow> Inr (if keep then item # rest else rest)))"

text \<open>\<open>allocatedStringArray = [[''] * 2 for _ in range(32)]\<close>\<close>

definition allocatedStringArray :: pyval where
  "allocatedStringArray = VList (replicate 32 (VList (replicate 2 (VStr []))))"

text \<open>
  One pass of the loop body for \<open>channel\<close>; the value is the dictionary appended to
  \<open>allTedsData\<close>:
  \<^verbatim>\<open>
  try:
      tedsInfo = self.vv.Teds(channel, allocatedStringArray)
      teds_info_clean = [item for item in tedsInfo if item[0] and item[1]]
      tedsData = {"Channel": channel+1, "Teds": teds_info_clean}
      allTedsData.append(tedsData)
  except Exception as e:
      comErr = ExtractComErrorInfo(e)
      tedsError = {"Channel": channel+1, "Error": comErr}
      allTedsData.append(tedsError)
  \<close>
\<close>

definition teds_channel :: "VibrationVIEW \<Rightarrow> pyval \<Rightarrow> pyval comp" where
  "teds_channel self channel =
     try_c (bind_c (invoke self ''Teds'' [channel, allocatedStringArray]) (\<lambda>tedsInfo.
            bind_c (lift_c (py_iter tedsInfo)) (\<lambda>items.
            bind_c (lift_c (teds_info_clean items)) (\<lambda>clean.
            bind_c (lift_c (py_add_one channel)) (\<lambda>number.
            return_c (VDict [(''Channel'', number), (''Teds'', VList clean)]))))))
           (\<lambda>e. (let comErr = ExtractComErrorInfo e in
                 bind_c (lift_c (py_add_one channel)) (\<lambda>number.
                 return_c (VDict [(''Channel'', number), (''Error'', comErr)]))))"

fun teds_loop :: "VibrationVIEW \<Rightarrow> pyval list \<Rightarrow> pyval list \<Rightarrow> (pyval list) comp" where
  "teds_loop self [] allTedsData = return_c allTedsData"
| "teds_loop self (channel # channelsToCheck) allTedsData =
     bind_c (teds_channel self channel) (\<lambda>entry.
     teds_loop self channelsToCheck (allTedsData @ [entry]))"

text \<open>
  \<^verbatim>\<open>
  allTedsData = []
  try:
      numChannels = self.GetHardwareInputChannels()
      allocatedStringArray = [[''] * 2 for _ in range(32)]
      channelsToCheck = [channel] if channel is not None else range(numChannels)
      for channel in channelsToCheck: ...
      return allTedsData
  except Exception as e:
      return []
  \<close>
\<close>

definition Teds :: "VibrationVIEW \<Rightarrow> pyval \<Rightarrow> pyval comp" where
  "Teds self channel =
     try_c (bind_c (GetHardwareInputChannels self) (\<lambda>numChannels.
            bind_c (if \<not> is_None channel then return_c [channel]
                    else lift_c (py_range numChannels)) (\<lambda>channelsToCheck.
            bind_c (teds_loop self channelsToCheck []) (\<lambda>allTedsData.
            return_c (VList allTedsData)))))
           (\<lambda>e. return_c (VList []))"

text \<open>
  The cleaning as the specification words it, for comparison: strip exactly the trailing rows
  in which both columns are empty, keep every earlier row in order.
\<close>

definition both_empty :: "pyval \<Rightarrow> bool" where
  "both_empty item = (py_index item 0 = Inr (VStr []) \<and> py_index item 1 = Inr (VStr []))"

definition strip_trailing_empty :: "pyval list \<Rightarrow> pyval list" where
  "strip_trailing_empty rows = rev (dropWhile both_empty (rev rows))"

subsection \<open>Sine test control\<close>

definition SweepUp :: "VibrationVIEW \<Rightarrow> pyval comp" where
  "SweepUp self = invoke self ''SweepUp'' []"

definition SweepDown :: "VibrationVIEW \<Rightarrow> pyval comp" where
  "SweepDown self = invoke self ''SweepDown'' []"

definition SweepStepUp :: "VibrationVIEW \<Rightarrow> pyval comp" where
  "SweepStepUp self = invoke self ''SweepStepUp'' []"

definition SweepStepDown :: "VibrationVIEW \<Rightarrow> pyval comp" where
  "SweepStepDown self = invoke self ''SweepStepDown'' []"

definition SweepHold :: "VibrationVIEW \<Rightarrow> pyval comp" where
  "SweepHold self = invoke self ''SweepHold'' []"

definition SweepResonanceHold :: "VibrationVIEW \<Rightarrow> pyval comp" where
  "SweepResonanceHold self = invoke self ''SweepResonanceHold'' []"

text \<open>
  The getter/setter pairs on a property, for instance
  \<^verbatim>\<open>
  def SweepMultiplier(self, value=None):
      if value is None:
          return self.vv.SweepMultiplier
      else:
          self.vv.SweepMultiplier = value
          return value
  \<close>
  \<open>DemandMultiplier\<close> addresses the property the source spells \<open>DemandMultipler\<close>.
\<close>

definition DemandMultiplier :: "VibrationVIEW \<Rightarrow> pyval \<Rightarrow> pyval comp" where
  "DemandMultiplier self v =
     (if is_None v then prop_get self ''DemandMultipler''
      else bind_c (prop_put self ''DemandMultipler'' v) (\<lambda>_. return_c v))"

definition SweepMultiplier :: "VibrationVIEW \<Rightarrow> pyval \<Rightarrow> pyval comp" where
  "SweepMultiplier self v =
     (if is_None v then prop_get self ''SweepMultiplier''
      else bind_c (prop_put self ''SweepMultiplier'' v) (\<lambda>_. return_c v))"

text \<open>
  \<open>TestType\<close> writes \<open>int(value)\<close> and returns \<open>value\<close>:
  \<^verbatim>\<open>
  if value is None:
      return self.vv.TestType
  else:
      self.vv.TestType = int(value)
      return value
  \<close>
  The right-hand side \<open>int(value)\<close> is evaluated before the target \<open>self.vv\<close>.
\<close>

definition TestType :: "VibrationVIEW \<Rightarrow> pyval \<Rightarrow> pyval comp" where
  "TestType self v =
     (if is_None v then prop_get self ''TestType''
      else bind_c (lift_c (py_int v)) (\<lambda>i.
           bind_c (prop_put self ''TestType'' (VInt i)) (\<lambda>_. return_c v)))"

definition SystemCheckFrequency :: "VibrationVIEW \<Rightarrow> pyval \<Rightarrow> pyval comp" where
  "SystemCheckFrequency self v =
     (if is_None v then prop_get self ''SystemCheckFrequency''
      else bind_c (prop_put self ''SystemCheckFrequency'' v) (\<lambda>_. return_c v))"

definition SystemCheckOutputVoltage :: "VibrationVIEW \<Rightarrow> pyval \<Rightarrow> pyval comp" where
  "SystemCheckOutputVoltage self v =
     (if is_None v then prop_get self ''SystemCheckOutputVoltage''
      else bind_c (prop_put self ''SystemCheckOutputVoltage'' v) (\<lambda>_. return_c v))"

definition SineFrequency :: "VibrationVIEW \<Rightarrow> pyval \<Rightarrow> pyval comp" where
  "SineFrequency self v =
     (if is_None v then prop_get self ''SineFrequency''
      else bind_c (prop_put self ''SineFrequency'' v) (\<lambda>_. return_c v))"

subsection \<open>Input configuration\<close>

definition InputCalDate :: "VibrationVIEW \<Rightarrow> pyval \<Rightarrow> pyval comp" where
  "InputCalDate self channel = invoke self ''InputCalDate'' [channel]"

definition InputSerialNumber :: "VibrationVIEW \<Rightarrow> pyval \<Rightarrow> pyval comp" where
  "InputSerialNumber self channel = invoke self ''InputSerialNumber'' [channel]"

text \<open>
  The per-channel getter/setter pairs call the same member with one or two arguments:
  \<^verbatim>\<open>
  if value is None:
      return self.vv.InputCapacitorCoupled(channel)
  else:
      self.vv.InputCapacitorCoupled(channel, value)
      return value
  \<close>
\<close>

definition InputCapacitorCoupled :: "VibrationVIEW \<Rightarrow> pyval \<Rightarrow> pyval \<Rightarrow> pyval comp" where
  "InputCapacitorCoupled self channel v =
     (if is_None v then invoke self ''InputCapacitorCoupled'' [channel]
      else bind_c (invoke self ''InputCapacitorCoupled'' [channel, v]) (\<lambda>_. return_c v))"

definition InputAccelPowerSource :: "VibrationVIEW \<Rightarrow> pyval \<Rightarrow> pyval \<Rightarrow> pyval comp" where
  "InputAccelPowerSource self channel v =
     (if is_None v then invoke self ''InputAccelPowerSource'' [channel]
      else bind_c (invoke self ''InputAccelPowerSource'' [channel, v]) (\<lambda>_. return_c v))"

definition InputDifferential :: "VibrationVIEW \<Rightarrow> pyval \<Rightarrow> pyval \<Rightarrow> pyval comp" where
  "InputDifferential self channel v =
     (if is_None v then invoke self ''InputDifferential'' [channel]
      else bind_c (invoke self ''InputDifferential'' [channel, v]) (\<lambda>_. return_c v))"

definition InputSensitivity :: "VibrationVIEW \<Rightarrow> pyval \<Rightarrow> pyval comp" where
  "InputSensitivity self channel = invoke self ''InputSensitivity'' [channel]"

definition InputEngineeringScale :: "VibrationVIEW \<Rightarrow> pyval \<Rightarrow> pyval comp" where
  "InputEngineeringScale self channel = invoke self ''InputEngineeringScale'' [channel]"

definition InputMode :: "VibrationVIEW \<Rightarrow> pyval \<Rightarrow> pyval \<Rightarrow> pyval \<Rightarrow> pyval \<Rightarrow> pyval comp" where
  "InputMode self channel powerSource capCoupled differential =
     invoke self ''InputMode'' [channel, powerSource, capCoupled, differential]"

definition InputCalibration :: "VibrationVIEW \<Rightarrow> pyval \<Rightarrow> pyval \<Rightarrow> pyval \<Rightarrow> pyval \<Rightarrow> pyval comp" where
  "InputCalibration self channel sensitivity serialNumber calDate =
     invoke self ''InputCalibration'' [channel, sensitivity, serialNumber, calDate]"

definition HardwareSupportsCapacitorCoupled :: "VibrationVIEW \<Rightarrow> pyval \<Rightarrow> pyval comp" where
  "HardwareSupportsCapacitorCoupled self channel =
     invoke self ''HardwareSupportsCapacitorCoupled'' [channel]"

definition HardwareSupportsAccelPowerSource :: "VibrationVIEW \<Rightarrow> pyval \<Rightarrow> pyval comp" where
  "HardwareSupportsAccelPowerSource self channel =
     invoke self ''HardwareSupportsAccelPowerSource'' [channel]"

definition HardwareSupportsDifferential :: "VibrationVIEW \<Rightarrow> pyval \<Rightarrow> pyval comp" where
  "HardwareSupportsDifferential self channel =
     invoke self ''HardwareSupportsDifferential'' [channel]"

subsection \<open>Active test, recording, configuration file\<close>

definition GetActiveTest :: "VibrationVIEW \<Rightarrow> pyval comp" where
  "GetActiveTest self = prop_get self ''ActiveTest''"

definition RecordStart :: "VibrationVIEW \<Rightarrow> pyval comp" where
  "RecordStart self = invoke self ''RecordStart'' []"

definition RecordStop :: "VibrationVIEW \<Rightarrow> pyval comp" where
  "RecordStop self = invoke self ''RecordStop'' []"

definition RecordPause :: "VibrationVIEW \<Rightarrow> pyval comp" where
  "RecordPause self = invoke self ''RecordPause'' []"

text \<open>\<open>RecordGetFilename\<close> reads the member without calling it.\<close>

definition RecordGetFilename :: "VibrationVIEW \<Rightarrow> pyval comp" where
  "RecordGetFilename self = prop_get self ''RecordGetFilename''"

definition SetInputConfigurationFile :: "VibrationVIEW \<Rightarrow> pyval \<Rightarrow> pyval comp" where
  "SetInputConfigurationFile self configName =
     invoke self ''set_InputConfigurationFile'' [configName]"

subsection \<open>The call surface as one dispatcher\<close>

text \<open>
  Every public method of the class with its arguments (\<open>close\<close> and the constructor
  apart), grouped under the section comments of the source.
\<close>

text \<open>Basic control methods.\<close>

datatype control_op =
    OpRunTest pyval | OpOpenTest pyval | OpEditTest pyval | OpStartTest | OpStopTest
  | OpAbortEdit | OpSaveData pyval | OpMinimize | OpRestore | OpMaximize | OpActivate
  | OpMenuCommand pyval

primrec perform_control :: "control_op \<Rightarrow> VibrationVIEW \<Rightarrow> pyval comp" where
  "perform_control (OpRunTest a) self = RunTest self a"
| "perform_control (OpOpenTest a) self = OpenTest self a"
| "perform_control (OpEditTest a) self = EditTest self a"
| "perform_control OpStartTest self = StartTest self"
| "perform_control OpStopTest self = StopTest self"
| "perform_control OpAbortEdit self = AbortEdit self"
| "perform_control (OpSaveData a) self = SaveData self a"
| "perform_control OpMinimize self = Minimize self"
| "perform_control OpRestore self = Restore self"
| "perform_control OpMaximize self = Maximize self"
| "perform_control OpActivate self = Activate self"
| "perform_control (OpMenuCommand a) self = MenuCommand self a"

text \<open>Status and properties.\<close>

datatype status_op =
    OpStatus | OpIsRunning | OpIsStarting | OpIsChangingLevel | OpIsHoldLevel | OpIsOpenLoop
  | OpIsAborted | OpCanResumeTest | OpIsReady | OpResumeTest

primrec perform_status :: "status_op \<Rightarrow> VibrationVIEW \<Rightarrow> pyval comp" where
  "perform_status OpStatus self = Status self"
| "perform_status OpIsRunning self = IsRunning self"
| "perform_status OpIsStarting self = IsStarting self"
| "perform_status OpIsChangingLevel self = IsChangingLevel self"
| "perform_status OpIsHoldLevel self = IsHoldLevel self"
| "perform_status OpIsOpenLoop self = IsOpenLoop self"
| "perform_status OpIsAborted self = IsAborted self"
| "perform_status OpCanResumeTest self = CanResumeTest self"
| "perform_status OpIsReady self = IsReady self"
| "perform_status OpResumeTest self = ResumeTest self"

text \<open>Data retrieval methods.\<close>

datatype data_op =
    OpDemand | OpControl | OpChannel | OpOutput | OpVector int int | OpRearInput

primrec perform_data :: "data_op \<Rightarrow> VibrationVIEW \<Rightarrow> pyval comp" where
  "perform_data OpDemand self = Demand self"
| "perform_data OpControl self = Control self"
| "perform_data OpChannel self = Channel self"
| "perform_data OpOutput self = Output self"
| "perform_data (OpVector a b) self = Vector self a b"
| "perform_data OpRearInput self = RearInput self"

text \<open>Properties for raw data vectors.\<close>

datatype vector_op =
    OpVectorUnit int | OpVectorLabel int | OpVectorLength int | OpControlUnit pyval
  | OpControlLabel pyval | OpChannelUnit pyval | OpChannelLabel pyval | OpReportField pyval
  | OpRearInputUnit pyval | OpRearInputLabel pyval | OpTeds pyval

primrec perform_vector :: "vector_op \<Rightarrow> VibrationVIEW \<Rightarrow> pyval comp" where
  "perform_vector (OpVectorUnit a) self = VectorUnit self a"
| "perform_vector (OpVectorLabel a) self = VectorLabel self a"
| "perform_vector (OpVectorLength a) self = VectorLength self a"
| "perform_vector (OpControlUnit a) self = ControlUnit self a"
| "perform_vector (OpControlLabel a) self = ControlLabel self a"
| "perform_vector (OpChannelUnit a) self = ChannelUnit self a"
| "perform_vector (OpChannelLabel a) self = ChannelLabel self a"
| "perform_vector (OpReportField a) self = ReportField self a"
| "perform_vector (OpRearInputUnit a) self = RearInputUnit self a"
| "perform_vector (OpRearInputLabel a) self = RearInputLabel self a"
| "perform_vector (OpTeds a) self = Teds self a"

text \<open>Test control methods.\<close>

datatype sine_op =
    OpSweepUp | OpSweepDown | OpSweepStepUp | OpSweepStepDown | OpSweepHold
  | OpSweepResonanceHold | OpDemandMultiplier pyval | OpSweepMultiplier pyval
  | OpTestType pyval | OpSystemCheckFrequency pyval | OpSystemCheckOutputVoltage pyval
  | OpSineFrequency pyval

primrec perform_sine :: "sine_op \<Rightarrow> VibrationVIEW \<Rightarrow> pyval comp" where
  "perform_sine OpSweepUp self = SweepUp self"
| "perform_sine OpSweepDown self = SweepDown self"
| "perform_sine OpSweepStepUp self = SweepStepUp self"
| "perform_sine OpSweepStepDown self = SweepStepDown self"
| "perform_sine OpSweepHold self = SweepHold self"
| "perform_sine OpSweepResonanceHold self = SweepResonanceHold self"
| "perform_sine (OpDemandMultiplier a) self = DemandMultiplier self a"
| "perform_sine (OpSweepMultiplier a) self = SweepMultiplier self a"
| "perform_sine (OpTestType a) self = TestType self a"
| "perform_sine (OpSystemCheckFrequency a) self = SystemCheckFrequency self a"
| "perform_sine (OpSystemCheckOutputVoltage a) self = SystemCheckOutputVoltage self a"
| "perform_sine (OpSineFrequency a) self = SineFrequency self a"

text \<open>Hardware and input configuration methods.\<close>

datatype input_op =
    OpGetHardwareInputChannels | OpGetHardwareOutputChannels | OpGetHardwareSerialNumber
  | OpGetSoftwareVersion | OpInputCalDate pyval | OpInputSerialNumber pyval
  | OpInputCapacitorCoupled pyval pyval | OpInputAccelPowerSource pyval pyval
  | OpInputDifferential pyval pyval | OpInputSensitivity pyval | OpInputEngineeringScale pyval
  | OpInputMode pyval pyval pyval pyval | OpInputCalibration pyval pyval pyval pyval
  | OpHardwareSupportsCapacitorCoupled pyval | OpHardwareSupportsAccelPowerSource pyval
  | OpHardwareSupportsDifferential pyval

primrec perform_input :: "input_op \<Rightarrow> VibrationVIEW \<Rightarrow> pyval comp" where
  "perform_input OpGetHardwareInputChannels self = GetHardwareInputChannels self"
| "perform_input OpGetHardwareOutputChannels self = GetHardwareOutputChannels self"
| "perform_input OpGetHardwareSerialNumber self = GetHardwareSerialNumber self"
| "perform_input OpGetSoftwareVersion self = GetSoftwareVersion self"
| "perform_input (OpInputCalDate a) self = InputCalDate self a"
| "perform_input (OpInputSerialNumber a) self = InputSerialNumber self a"
| "perform_input (OpInputCapacitorCoupled a b) self = InputCapacitorCoupled self a b"
| "perform_input (OpInputAccelPowerSource a b) self = InputAccelPowerSource self a b"
| "perform_input (OpInputDifferential a b) self = InputDifferential self a b"
| "perform_input (OpInputSensitivity a) self = InputSensitivity self a"
| "perform_input (OpInputEngineeringScale a) self = InputEngineeringScale self a"
| "perform_input (OpInputMode a b c d) self = InputMode self a b c d"
| "perform_input (OpInputCalibration a b c d) self = InputCalibration self a b c d"
| "perform_input (OpHardwareSupportsCapacitorCoupled a) self = HardwareSupportsCapacitorCoupled self a"
| "perform_input (OpHardwareSupportsAccelPowerSource a) self = HardwareSupportsAccelPowerSource self a"
| "perform_input (OpHardwareSupportsDifferential a) self = HardwareSupportsDifferential self a"

text \<open>V8/V11 methods.\<close>

datatype record_op =
    OpGetActiveTest | OpRecordStart | OpRecordStop | OpRecordPause | OpRecordGetFilename
  | OpSetInputConfigurationFile pyval

primrec perform_record :: "record_op \<Rightarrow> VibrationVIEW \<Rightarrow> pyval comp" where
  "perform_record OpGetActiveTest self = GetActiveTest self"
| "perform_record OpRecordStart self = RecordStart self"
| "perform_record OpRecordStop self = RecordStop self"
| "perform_record OpRecordPause self = RecordPause self"
| "perform_record OpRecordGetFilename self = RecordGetFilename self"
| "perform_record (OpSetInputConfigurationFile a) self = SetInputConfigurationFile self a"

datatype operation =
    ControlOp control_op
  | StatusOp status_op
  | DataOp data_op
  | VectorOp vector_op
  | SineOp sine_op
  | InputOp input_op
  | RecordOp record_op

primrec perform :: "operation \<Rightarrow> VibrationVIEW \<Rightarrow> pyval comp" where
  "perform (ControlOp x) self = perform_control x self"
| "perform (StatusOp x) self = perform_status x self"
| "perform (DataOp x) self = perform_data x self"
| "perform (VectorOp x) self = perform_vector x self"
| "perform (SineOp x) self = perform_sine x self"
| "perform (InputOp x) self = perform_input x self"
| "perform (RecordOp x) self = perform_record x self"

section \<open>The polling helpers\<close>

text \<open>
  \<open>wait_for_condition\<close> of \<open>app.py\<close> and \<open>_wait_for_condition\<close> of \<open>conftest.py\<close> have the
  same body:
  \<^verbatim>\<open>
  start_time = time.time()
  result = False
  while time.time() - start_time < wait_time:
      result = condition_func()
      if result:
          break
      time.sleep(check_interval)
  return result
  \<close>
  Time is external: \<open>clock n\<close> is the value of the \<open>n\<close>-th call of \<open>time.time()\<close>, counted
  from \<open>0\<close>, and \<open>condition_func n\<close> the outcome of the \<open>n\<close>-th call of the predicate.
  \<open>time.sleep\<close> raises ValueError on a negative duration. The loop may run forever, so it
  is a partial function; its value records the returned value or exception, how many times
  the predicate was sampled and the sleeps made. The loop variable \<open>n\<close> counts the passes
  made so far.
\<close>

type_synonym wait_outcome = "(py_error + bool) \<times> nat \<times> rat list"

partial_function (option) wait_for_condition_loop ::
  "(nat \<Rightarrow> rat) \<Rightarrow> (nat \<Rightarrow> py_error + bool) \<Rightarrow> rat \<Rightarrow> rat \<Rightarrow> rat \<Rightarrow> bool \<Rightarrow> nat \<Rightarrow> rat list
     \<Rightarrow> wait_outcome option" where
  "wait_for_condition_loop clock condition_func wait_time check_interval start_time result n sleeps =
     (if clock (Suc n) - start_time < wait_time then
        (case condition_func n of
           Inl e \<Rightarrow> Some (Inl e, Suc n, sleeps)
         | Inr r \<Rightarrow>
             if r then Some (Inr r, Suc n, sleeps)
             else if check_interval < 0 then Some (Inl ValueError, Suc n, sleeps)
             else wait_for_condition_loop clock condition_func wait_time check_interval
                    start_time r (Suc n) (sleeps @ [check_interval]))
      else Some (Inr result, n, sleeps))"

definition wait_for_condition ::
  "(nat \<Rightarrow> rat) \<Rightarrow> (nat \<Rightarrow> py_error + bool) \<Rightarrow> rat \<Rightarrow> rat \<Rightarrow> wait_outcome option" where
  "wait_for_condition clock condition_func wait_time check_interval =
     wait_for_condition_loop clock condition_func wait_time check_interval (clock 0) False 0 []"

text \<open>
  \<open>_wait_for_not\<close> of \<open>conftest.py\<close>:
  \<^verbatim>\<open>
  start_time = time.time()
  while time.time() - start_time < wait_time:
      result = condition_func()
      if not result:
          return False  # Return False when condition becomes False
      time.sleep(check_interval)
  return True  # Timed out, condition still True
  \<close>
\<close>

partial_function (option) conftest_wait_for_not_loop ::
  "(nat \<Rightarrow> rat) \<Rightarrow> (nat \<Rightarrow> py_error + bool) \<Rightarrow> rat \<Rightarrow> rat \<Rightarrow> rat \<Rightarrow> nat \<Rightarrow> rat list
     \<Rightarrow> wait_outcome option" where
  "conftest_wait_for_not_loop clock condition_func wait_time check_interval start_time n sleeps =
     (if clock (Suc n) - start_time < wait_time then
        (case condition_func n of
           Inl e \<Rightarrow> Some (Inl e, Suc n, sleeps)
         | Inr result \<Rightarrow>
             if \<not> result then Some (Inr False, Suc n, sleeps)
             else if check_interval < 0 then Some (Inl ValueError, Suc n, sleeps)
             else conftest_wait_for_not_loop clock condition_func wait_time check_interval
                    start_time (Suc n) (sleeps @ [check_interval]))
      else Some (Inr True, n, sleeps))"

definition conftest_wait_for_not ::
  "(nat \<Rightarrow> rat) \<Rightarrow> (nat \<Rightarrow> py_error + bool) \<Rightarrow> rat \<Rightarrow> rat \<Rightarrow> wait_outcome option" where
  "conftest_wait_for_not clock condition_func wait_time check_interval =
     conftest_wait_for_not_loop clock condition_func wait_time check_interval (clock 0) 0 []"

text \<open>
  \<open>wait_for_not\<close> of \<open>app.py\<close> differs in one line: it returns the observed value,
  \<^verbatim>\<open>
      if not result:
          return result
  \<close>
\<close>

partial_function (option) wait_for_not_loop ::
  "(nat \<Rightarrow> rat) \<Rightarrow> (nat \<Rightarrow> py_error + bool) \<Rightarrow> rat \<Rightarrow> rat \<Rightarrow> rat \<Rightarrow> nat \<Rightarrow> rat list
     \<Rightarrow> wait_outcome option" where
  "wait_for_not_loop clock condition_func wait_time check_interval start_time n sleeps =
     (if clock (Suc n) - start_time < wait_time then
        (case condition_func n of
           Inl e \<Rightarrow> Some (Inl e, Suc n, sleeps)
         | Inr result \<Rightarrow>
             if \<not> result then Some (Inr result, Suc n, sleeps)
             else if check_interval < 0 then Some (Inl ValueError, Suc n, sleeps)
             else wait_for_not_loop clock condition_func wait_time check_interval
                    start_time (Suc n) (sleeps @ [check_interval]))
      else Some (Inr True, n, sleeps))"

definition wait_for_not ::
  "(nat \<Rightarrow> rat) \<Rightarrow> (nat \<Rightarrow> py_error + bool) \<Rightarrow> rat \<Rightarrow> rat \<Rightarrow> wait_outcome option" where
  "wait_for_not clock condition_func wait_time check_interval =
     wait_for_not_loop clock condition_func wait_time check_interval (clock 0) 0 []"

section \<open>Runs of constructors and destructors\<close>

text \<open>
  Objects live in a heap indexed by an object identity. \<open>Construct t i d\<close> runs \<open>__init__\<close>
  on thread \<open>t\<close> for the object \<open>i\<close>, with \<open>d\<close> the outcome of \<open>Dispatch\<close>; \<open>Destroy t i\<close>
  runs \<open>__del__\<close> of object \<open>i\<close> on thread \<open>t\<close> (the interpreter runs it when the object is
  collected, and nothing prevents a second explicit call).
\<close>

datatype event = Construct nat nat "py_error + endpoint" | Destroy nat nat

record system =
  outside :: world
  heap :: "nat \<Rightarrow> VibrationVIEW option"

fun step :: "system \<Rightarrow> event \<Rightarrow> system" where
  "step s (Construct t i d) =
     (case VibrationVIEW_init t d (outside s) of
        (self, w) \<Rightarrow> \<lparr>outside = w, heap = (heap s)(i := Some self)\<rparr>)"
| "step s (Destroy t i) =
     (case heap s i of
        None \<Rightarrow> s
      | Some self \<Rightarrow>
          (case del t self (outside s) of
             (self', w) \<Rightarrow> \<lparr>outside = w, heap = (heap s)(i := Some self')\<rparr>))"

definition run :: "system \<Rightarrow> event list \<Rightarrow> system" where
  "run s es = foldl step s es"

definition world0 :: world where
  "world0 = \<lparr>calls = [], slept = [], threads = (\<lambda>t. None),
             CoInitialize_calls = (\<lambda>t. 0), CoUninitialize_calls = (\<lambda>t. 0)\<rparr>"



section \<open>Propagation of remote failures\<close>

text \<open>
  An operation started in world \<open>w\<close> propagates remote failures when every interaction it
  made that the endpoint answered with an exception ends the operation with that exception.
\<close>

definition new_calls :: "world \<Rightarrow> world \<Rightarrow> trace" where
  "new_calls w w' = drop (length (calls w)) (calls w')"

definition failure_reaches_caller :: "py_error + pyval \<Rightarrow> interaction \<times> response \<Rightarrow> bool" where
  "failure_reaches_caller r c = (case snd c of Inl e \<Rightarrow> r = Inl e | Inr v \<Rightarrow> True)"

definition propagates :: "pyval comp \<Rightarrow> world \<Rightarrow> bool" where
  "propagates m w = (case m w of (r, w') \<Rightarrow> list_all (failure_reaches_caller r) (new_calls w w'))"

section \<open>Concrete endpoints and inputs\<close>

definition live :: "endpoint \<Rightarrow> VibrationVIEW" where
  "live ep = \<lparr>vv = Some (Some ep), initialized_com = Some True\<rparr>"

text \<open>An endpoint that is reachable but whose \<open>IsReady\<close> always reads false.\<close>

definition never_ready :: endpoint where
  "never_ready tr i = Inr (VBool False)"

text \<open>An endpoint whose \<open>IsReady\<close> reads true from the third interaction on.\<close>

definition ready_on_third :: endpoint where
  "ready_on_third tr i = Inr (VBool (2 \<le> length tr))"

text \<open>An endpoint that reports two rows for every vector and fails every other call.\<close>

definition vector_call_fails :: endpoint where
  "vector_call_fails tr i =
     (if i = Invoke ''VectorLength'' [VInt 101] then Inr (VInt 2) else Inl (com_error (- 2147352567)))"

text \<open>
  An endpoint with four input channels whose TEDS block has a row with an empty value
  before the trailing empty rows.
\<close>

definition teds_rows :: "pyval list" where
  "teds_rows = [VTuple [VStr ''Manufacturer'', VStr ''Dytran''],
                VTuple [VStr ''Notes'', VStr []],
                VTuple [VStr [], VStr []],
                VTuple [VStr [], VStr []]]"

definition teds_endpoint :: endpoint where
  "teds_endpoint tr i =
     (if i = PropGet ''HardwareInputChannels'' then Inr (VInt 4) else Inr (VTuple teds_rows))"

text \<open>An endpoint with four input channels whose \<open>Channel\<close> call fails.\<close>

definition channel_call_fails :: endpoint where
  "channel_call_fails tr i =
     (if i = PropGet ''HardwareInputChannels'' then Inr (VInt 4) else Inl (com_error (- 2147352567)))"

text \<open>An endpoint that accepts every interaction and answers \<open>None\<close>.\<close>

definition accepting :: endpoint where
  "accepting tr i = Inr VNone"

text \<open>A clock that advances by one unit at every reading, and three predicates.\<close>

definition ticking :: "nat \<Rightarrow> rat" where
  "ticking n = of_nat n"

definition always_True :: "nat \<Rightarrow> py_error + bool" where
  "always_True n = Inr True"

definition always_False :: "nat \<Rightarrow> py_error + bool" where
  "always_False n = Inr False"

definition True_twice :: "nat \<Rightarrow> py_error + bool" where
  "True_twice n = Inr (n < 2)"




text \<open>The first object constructed on thread 0, with an endpoint that is never ready.\<close>

definition first_session :: "VibrationVIEW \<times> world" where
  "first_session = VibrationVIEW_init 0 (Inr never_ready) world0"

section \<open>Predicates used by the theorems\<close>

text \<open>
  What an outcome of \<open>wait_for_condition_loop\<close>, entered with \<open>n\<close> passes made and the
  variable \<open>result\<close> holding \<open>res\<close>, was observed from: either the time check failed at once
  and the value is \<open>res\<close>, or the value is the outcome of the last sample made.
\<close>

definition observed_from ::
  "(nat \<Rightarrow> rat) \<Rightarrow> (nat \<Rightarrow> py_error + bool) \<Rightarrow> rat \<Rightarrow> rat \<Rightarrow> bool \<Rightarrow> nat \<Rightarrow> wait_outcome \<Rightarrow> bool" where
  "observed_from clock cond wt st res n out =
     (case out of
        (Inr r, m, sl) \<Rightarrow>
          (m = n \<and> r = res \<and> \<not> clock (Suc n) - st < wt)
          \<or> (n < m \<and> cond (m - 1) = Inr r \<and> clock (Suc n) - st < wt)
      | (Inl e, m, sl) \<Rightarrow> n < m \<and> clock (Suc n) - st < wt)"

text \<open>The operations with a handler that does not re-raise: \<open>Channel\<close>, \<open>Vector\<close>, \<open>Teds\<close>.\<close>

definition has_handler :: "operation \<Rightarrow> bool" where
  "has_handler op =
     (case op of
        DataOp d \<Rightarrow> (case d of OpChannel \<Rightarrow> True | OpVector a b \<Rightarrow> True | _ \<Rightarrow> False)
      | VectorOp v \<Rightarrow> (case v of OpTeds c \<Rightarrow> True | _ \<Rightarrow> False)
      | _ \<Rightarrow> False)"

text \<open>
  The operations whose whole body is inside \<open>try ... except Exception: return []\<close>
  (\<open>Channel\<close> and \<open>Teds\<close>), and the answers to \<open>IsReady\<close> that make an attempt fail: an
  exception or a falsy value.
\<close>

definition has_outer_handler :: "operation \<Rightarrow> bool" where
  "has_outer_handler op =
     (case op of
        DataOp d \<Rightarrow> (case d of OpChannel \<Rightarrow> True | _ \<Rightarrow> False)
      | VectorOp v \<Rightarrow> (case v of OpTeds c \<Rightarrow> True | _ \<Rightarrow> False)
      | _ \<Rightarrow> False)"

definition not_ready :: "interaction \<times> response \<Rightarrow> bool" where
  "not_ready c = (case snd c of Inl e \<Rightarrow> True | Inr v \<Rightarrow> \<not> truthy v)"

text \<open>
  The exception an operation raises from converting its own argument, before it touches the
  handle: only \<open>TestType\<close> converts (\<open>int(value)\<close>).
\<close>

definition conversion_error :: "operation \<Rightarrow> py_error option" where
  "conversion_error op =
     (case op of
        SineOp x \<Rightarrow>
          (case x of
             OpTestType v \<Rightarrow>
               (if is_None v then None
                else (case py_int v of Inl e \<Rightarrow> Some e | Inr i \<Rightarrow> None))
           | _ \<Rightarrow> None)
      | _ \<Rightarrow> None)"

text \<open>
  The dictionaries \<open>Teds\<close> appends for the channel with 0-based index \<open>c\<close>, and what it
  means that the entry \<open>d\<close> wraps the outcome of the interaction \<open>call\<close> for that channel:
  the interaction is the TEDS call of the channel, the entry carries the 1-based channel
  number, and when the call raised the entry is the error record of that exception.
\<close>

definition teds_error_entry :: "int \<Rightarrow> py_error \<Rightarrow> pyval" where
  "teds_error_entry c e = VDict [(''Channel'', VInt (c + 1)), (''Error'', ExtractComErrorInfo e)]"

definition teds_data_entry :: "int \<Rightarrow> pyval list \<Rightarrow> pyval" where
  "teds_data_entry c rows = VDict [(''Channel'', VInt (c + 1)), (''Teds'', VList rows)]"

definition entry_field :: "pyval \<Rightarrow> string \<Rightarrow> pyval option" where
  "entry_field d k = (case d of VDict kvs \<Rightarrow> map_of kvs k | _ \<Rightarrow> None)"

definition wraps :: "int \<Rightarrow> interaction \<times> response \<Rightarrow> pyval \<Rightarrow> bool" where
  "wraps c call d =
     (fst call = Invoke ''Teds'' [VInt c, allocatedStringArray]
      \<and> entry_field d ''Channel'' = Some (VInt (c + 1))
      \<and> (case snd call of Inl e \<Rightarrow> d = teds_error_entry c e | Inr v \<Rightarrow> True))"







text \<open>
  \<open>m\<close>, started in \<open>w\<close>, makes exactly the interaction \<open>i\<close> with the endpoint \<open>ep\<close>; it is a
  read when the endpoint's answer is the result, and a write that returns \<open>v\<close> when the
  result is \<open>v\<close> unless the endpoint raised.
\<close>

definition single_call :: "pyval comp \<Rightarrow> endpoint \<Rightarrow> interaction \<Rightarrow> world \<Rightarrow> bool" where
  "single_call m ep i w = (new_calls w (snd (m w)) = [(i, ep (calls w) i)])"

definition reads :: "pyval comp \<Rightarrow> endpoint \<Rightarrow> interaction \<Rightarrow> world \<Rightarrow> bool" where
  "reads m ep i w = (single_call m ep i w \<and> fst (m w) = ep (calls w) i)"

definition writes_and_returns ::
  "pyval comp \<Rightarrow> endpoint \<Rightarrow> interaction \<Rightarrow> pyval \<Rightarrow> world \<Rightarrow> bool" where
  "writes_and_returns m ep i v w =
     (single_call m ep i w
      \<and> fst (m w) = (case ep (calls w) i of Inl e \<Rightarrow> Inl e | Inr a \<Rightarrow> Inr v))"

section \<open>Evaluation at concrete inputs\<close>

lemmas comp_defs = Let_def return_c_def lift_c_def bind_c_def try_c_def remote_def ask_def
  self_vv_def invoke_def prop_get_def prop_put_def bool_prop_def

lemmas init_defs = VibrationVIEW_init_def init_com_def in_threads_def world0_def new_object_def
  CoInitialize_def Let_def retryAttempts_def ask_def upt_rec vv_is_None_def

text \<open>
  Claim C1 (the code departs from it). The endpoint reports two rows and then fails the data
  call; the handler's \<open>self.log\<close> does not exist on the class, so the call raises
  AttributeError instead of returning the pre-allocated matrix \<open>[[0.0], [0.0]]\<close>.
\<close>

theorem Vector_failure_raises:
  "fst (Vector (live vector_call_fails) 101 1 world0) = Inl AttributeError
   \<and> map snd (calls (snd (Vector (live vector_call_fails) 101 1 world0)))
       = [Inr (VInt 2), Inl (com_error (- 2147352567))]
   \<and> zero_matrix [VInt 0, VInt 1] 1 = VList [VList [VFloat 0], VList [VFloat 0]]"
  by (simp add: Vector_def comp_defs live_def vector_call_fails_def world0_def zero_matrix_def
      self_log_def VibrationVIEW_attributes_def)

text \<open>
  More generally, on a live session every failure of the data call ends in AttributeError.
\<close>

lemma Vector_handler_always_raises:
  assumes "self_vv self = Inr ep"
    and "ep (calls w) (Invoke ''VectorLength'' [VInt vectorEnum]) = Inr rows"
    and "py_range rows = Inr rows_range"
    and "ep (calls w @ [(Invoke ''VectorLength'' [VInt vectorEnum], Inr rows)])
           (Invoke ''Vector'' [zero_matrix rows_range columns, VInt vectorEnum]) = Inl e"
  shows "fst (Vector self vectorEnum columns w) = Inl AttributeError"
  using assms
  by (simp add: Vector_def Let_def return_c_def lift_c_def bind_c_def try_c_def remote_def
      ask_def invoke_def self_log_def VibrationVIEW_attributes_def)

text \<open>
  Claim C3 (the code departs from it). With an endpoint that is reachable but never ready,
  the five attempts are followed by five sleeps: the last one, of 8 units, comes after the
  fifth and final attempt.
\<close>

theorem connect_sleeps_after_final_attempt:
  "slept (snd (VibrationVIEW_init 0 (Inr never_ready) world0)) = [1 / 2, 1, 2, 4, 8]
   \<and> length (calls (snd (VibrationVIEW_init 0 (Inr never_ready) world0))) = 5"
  by (simp add: init_defs never_ready_def)

text \<open>
  The part of claim C3 about an endpoint ready on the third attempt holds: two sleeps,
  0.5 and 1.0, and a live handle.
\<close>

lemma connect_ready_on_third:
  "slept (snd (VibrationVIEW_init 0 (Inr ready_on_third) world0)) = [1 / 2, 1]
   \<and> length (calls (snd (VibrationVIEW_init 0 (Inr ready_on_third) world0))) = 3
   \<and> vv_is_None (fst (VibrationVIEW_init 0 (Inr ready_on_third) world0)) = Inr False"
  by (simp add: init_defs ready_on_third_def)

text \<open>
  Claim C4 as stated fails. After the attempts are exhausted \<open>self.vv\<close> was never
  assigned, so the caller's check \<open>connection.vv is None\<close> raises AttributeError instead
  of observing a null handle; and on that object \<open>Channel\<close> and \<open>Teds\<close> return the empty
  list instead of failing.
\<close>

theorem exhausted_session_counterexample:
  "vv (fst first_session) = None
   \<and> vv_is_None (fst first_session) = Inl AttributeError
   \<and> fst (perform (DataOp OpChannel) (fst first_session) (snd first_session)) = Inr (VList [])
   \<and> fst (perform (VectorOp (OpTeds VNone)) (fst first_session) (snd first_session))
       = Inr (VList [])"
  by (simp add: first_session_def init_defs never_ready_def Channel_def Teds_def
      GetHardwareInputChannels_def comp_defs)

text \<open>No construction, successful or not, leaves \<open>self.vv\<close> assigned to \<open>None\<close>.\<close>

lemma connect_attempts_handle:
  "vv self \<noteq> Some None \<Longrightarrow> vv (fst (connect_attempts ep as wt self w)) \<noteq> Some None"
  by (induction as arbitrary: wt w) (auto simp: ask_def Let_def split: sum.splits)

lemma handle_never_null: "vv (fst (VibrationVIEW_init t d w)) \<noteq> Some None"
proof -
  have "vv (fst (init_com t new_object w)) = None"
    by (simp add: init_com_def new_object_def Let_def)
  then show ?thesis
    by (cases d; cases "init_com t new_object w")
      (simp_all add: VibrationVIEW_init_def connect_attempts_handle)
qed

text \<open>
  Claim C7 (the code departs from it). For channel 0 the endpoint answers with the rows
  (Manufacturer, Dytran), (Notes, empty), (empty, empty), (empty, empty). The code keeps
  only the rows with both cells non-empty and so drops the row (Notes, empty), which
  stripping the trailing both-empty rows keeps.
\<close>

theorem Teds_drops_row_with_one_empty_cell:
  "fst (Teds (live teds_endpoint) (VInt 0) world0) =
     Inr (VList [VDict [(''Channel'', VInt 1),
                        (''Teds'', VList [VTuple [VStr ''Manufacturer'', VStr ''Dytran'']])]])
   \<and> strip_trailing_empty teds_rows =
       [VTuple [VStr ''Manufacturer'', VStr ''Dytran''], VTuple [VStr ''Notes'', VStr []]]"
  by (simp add: Teds_def teds_channel_def GetHardwareInputChannels_def comp_defs live_def
      teds_endpoint_def world0_def teds_rows_def row_kept_def strip_trailing_empty_def
      both_empty_def)

text \<open>
  The second part of claim C7 holds: with four channels whose TEDS call fails, every channel
  gets its error record under its 1-based number and the loop goes on.
\<close>

lemma Teds_wraps_channel_failures:
  "fst (Teds (live channel_call_fails) VNone world0) =
     Inr (VList (map (\<lambda>n. VDict [(''Channel'', VInt n),
                                 (''Error'', VErrorInfo (com_error (- 2147352567)))])
                     [1, 2, 3, 4]))"
  by (simp add: Teds_def teds_channel_def GetHardwareInputChannels_def comp_defs live_def
      channel_call_fails_def world0_def ExtractComErrorInfo_def upt_rec)

section \<open>The polling loops\<close>

lemma conftest_wait_for_not_loop_early:
  assumes "\<forall>j. n \<le> j \<and> j \<le> k \<longrightarrow> clock (Suc j) - st < wt"
    and "\<forall>j. n \<le> j \<and> j < k \<longrightarrow> cond j = Inr True"
    and "cond k = Inr False" and "n \<le> k" and "n < k \<longrightarrow> 0 \<le> iv"
  shows "conftest_wait_for_not_loop clock cond wt iv st n sl
           = Some (Inr False, Suc k, sl @ replicate (k - n) iv)"
  using assms
proof (induction "k - n" arbitrary: n sl)
  case 0
  then have "n = k" by simp
  with 0 show ?case
    by (subst conftest_wait_for_not_loop.simps) simp
next
  case (Suc d)
  then have lt: "n < k" by simp
  have unfold: "conftest_wait_for_not_loop clock cond wt iv st n sl
      = conftest_wait_for_not_loop clock cond wt iv st (Suc n) (sl @ [iv])"
    using Suc.prems lt by (subst conftest_wait_for_not_loop.simps) simp
  have "conftest_wait_for_not_loop clock cond wt iv st (Suc n) (sl @ [iv])
      = Some (Inr False, Suc k, (sl @ [iv]) @ replicate (k - Suc n) iv)"
    using Suc.hyps(2) Suc.prems lt by (intro Suc.hyps(1)) auto
  moreover have "k - n = Suc (k - Suc n)" using lt by simp
  ultimately show ?case using unfold by simp
qed

lemma conftest_wait_for_not_loop_timeout:
  assumes "\<forall>j. n \<le> j \<and> j < K \<longrightarrow> clock (Suc j) - st < wt \<and> cond j = Inr True"
    and "\<not> clock (Suc K) - st < wt" and "n \<le> K" and "n < K \<longrightarrow> 0 \<le> iv"
  shows "conftest_wait_for_not_loop clock cond wt iv st n sl
           = Some (Inr True, K, sl @ replicate (K - n) iv)"
  using assms
proof (induction "K - n" arbitrary: n sl)
  case 0
  then have "n = K" by simp
  with 0 show ?case
    by (subst conftest_wait_for_not_loop.simps) simp
next
  case (Suc d)
  then have lt: "n < K" by simp
  have unfold: "conftest_wait_for_not_loop clock cond wt iv st n sl
      = conftest_wait_for_not_loop clock cond wt iv st (Suc n) (sl @ [iv])"
    using Suc.prems lt by (subst conftest_wait_for_not_loop.simps) simp
  have "conftest_wait_for_not_loop clock cond wt iv st (Suc n) (sl @ [iv])
      = Some (Inr True, K, (sl @ [iv]) @ replicate (K - Suc n) iv)"
    using Suc.hyps(2) Suc.prems lt by (intro Suc.hyps(1)) auto
  moreover have "K - n = Suc (K - Suc n)" using lt by simp
  ultimately show ?case using unfold by simp
qed

lemma wait_for_not_loop_early:
  assumes "\<forall>j. n \<le> j \<and> j \<le> k \<longrightarrow> clock (Suc j) - st < wt"
    and "\<forall>j. n \<le> j \<and> j < k \<longrightarrow> cond j = Inr True"
    and "cond k = Inr False" and "n \<le> k" and "n < k \<longrightarrow> 0 \<le> iv"
  shows "wait_for_not_loop clock cond wt iv st n sl
           = Some (Inr False, Suc k, sl @ replicate (k - n) iv)"
  using assms
proof (induction "k - n" arbitrary: n sl)
  case 0
  then have "n = k" by simp
  with 0 show ?case
    by (subst wait_for_not_loop.simps) simp
next
  case (Suc d)
  then have lt: "n < k" by simp
  have unfold: "wait_for_not_loop clock cond wt iv st n sl
      = wait_for_not_loop clock cond wt iv st (Suc n) (sl @ [iv])"
    using Suc.prems lt by (subst wait_for_not_loop.simps) simp
  have "wait_for_not_loop clock cond wt iv st (Suc n) (sl @ [iv])
      = Some (Inr False, Suc k, (sl @ [iv]) @ replicate (k - Suc n) iv)"
    using Suc.hyps(2) Suc.prems lt by (intro Suc.hyps(1)) auto
  moreover have "k - n = Suc (k - Suc n)" using lt by simp
  ultimately show ?case using unfold by simp
qed

lemma wait_for_not_loop_timeout:
  assumes "\<forall>j. n \<le> j \<and> j < K \<longrightarrow> clock (Suc j) - st < wt \<and> cond j = Inr True"
    and "\<not> clock (Suc K) - st < wt" and "n \<le> K" and "n < K \<longrightarrow> 0 \<le> iv"
  shows "wait_for_not_loop clock cond wt iv st n sl
           = Some (Inr True, K, sl @ replicate (K - n) iv)"
  using assms
proof (induction "K - n" arbitrary: n sl)
  case 0
  then have "n = K" by simp
  with 0 show ?case
    by (subst wait_for_not_loop.simps) simp
next
  case (Suc d)
  then have lt: "n < K" by simp
  have unfold: "wait_for_not_loop clock cond wt iv st n sl
      = wait_for_not_loop clock cond wt iv st (Suc n) (sl @ [iv])"
    using Suc.prems lt by (subst wait_for_not_loop.simps) simp
  have "wait_for_not_loop clock cond wt iv st (Suc n) (sl @ [iv])
      = Some (Inr True, K, (sl @ [iv]) @ replicate (K - Suc n) iv)"
    using Suc.hyps(2) Suc.prems lt by (intro Suc.hyps(1)) auto
  moreover have "K - n = Suc (K - Suc n)" using lt by simp
  ultimately show ?case using unfold by simp
qed

lemma wait_for_condition_loop_observed:
  assumes returned: "wait_for_condition_loop clock cond wt iv st res n sl = Some out"
  shows "observed_from clock cond wt st res n out"
proof (rule wait_for_condition_loop.raw_induct
    [where P = "\<lambda>clock cond wt iv st res n sl out. observed_from clock cond wt st res n out",
      OF _ returned])
  fix loop :: "(nat \<Rightarrow> rat) \<Rightarrow> (nat \<Rightarrow> py_error + bool) \<Rightarrow> rat \<Rightarrow> rat \<Rightarrow> rat \<Rightarrow> bool \<Rightarrow> nat
      \<Rightarrow> rat list \<Rightarrow> wait_outcome option"
  fix clock cond wt iv st res n sl out
  assume IH: "\<And>clock cond wt iv st res n sl out.
      loop clock cond wt iv st res n sl = Some out \<Longrightarrow> observed_from clock cond wt st res n out"
  assume body: "(if clock (Suc n) - st < wt
       then case cond n of
              Inl e \<Rightarrow> Some (Inl e, Suc n, sl)
            | Inr r \<Rightarrow>
                if r then Some (Inr r, Suc n, sl)
                else if iv < 0 then Some (Inl ValueError, Suc n, sl)
                     else loop clock cond wt iv st r (Suc n) (sl @ [iv])
       else Some (Inr res, n, sl)) = Some out"
  show "observed_from clock cond wt st res n out"
  proof (cases "clock (Suc n) - st < wt")
    case False
    with body show ?thesis by (auto simp: observed_from_def)
  next
    case check: True
    show ?thesis
    proof (cases "cond n")
      case (Inl e)
      with check body show ?thesis by (auto simp: observed_from_def)
    next
      case (Inr r)
      show ?thesis
      proof (cases "r \<or> iv < 0")
        case True
        with check Inr body show ?thesis
          by (auto simp: observed_from_def split: if_splits)
      next
        case False
        with check Inr body have "loop clock cond wt iv st r (Suc n) (sl @ [iv]) = Some out"
          by simp
        from IH[OF this] False Inr check show ?thesis
          by (auto simp: observed_from_def split: prod.splits sum.splits)
      qed
    qed
  qed
qed

lemma wait_for_condition_loop_returns:
  assumes "\<not> clock (Suc K) - st < wt" and "n \<le> K"
  shows "\<exists>out. wait_for_condition_loop clock cond wt iv st res n sl = Some out"
  using assms
proof (induction "K - n" arbitrary: n sl res)
  case 0
  then have "n = K" by simp
  with 0 show ?case
    by (subst wait_for_condition_loop.simps) simp
next
  case (Suc d)
  then have "Suc n \<le> K" and "d = K - Suc n" by simp_all
  from Suc.hyps(1)[OF this(2) Suc.prems(1) this(1)]
  show ?case
    by (subst wait_for_condition_loop.simps) (simp split: sum.splits)
qed

text \<open>
  Claim C5, as amended. \<open>wait_for_condition\<close> returns the last observed value of the
  predicate whenever it sampled it, and the initial \<open>False\<close> when it made no sample; it
  samples at least once exactly when the first time check finds the elapsed time below
  \<open>wait_time\<close>. With \<open>wait_time \<le> 0\<close> and a clock that does not run backwards it returns
  \<open>False\<close> without asking the predicate. It returns whenever some time check fails.
\<close>

theorem wait_for_condition_last_observed:
  "(wait_for_condition clock cond wt iv = Some (Inr r, n, sl) \<longrightarrow>
      (0 < n \<longrightarrow> cond (n - 1) = Inr r) \<and> (n = 0 \<longrightarrow> \<not> r) \<and> (0 < n \<longleftrightarrow> clock 1 - clock 0 < wt))
   \<and> (wt \<le> 0 \<and> clock 0 \<le> clock 1 \<longrightarrow>
        wait_for_condition clock cond wt iv = Some (Inr False, 0, []))
   \<and> ((\<exists>K. \<not> clock (Suc K) - clock 0 < wt) \<longrightarrow>
        (\<exists>out. wait_for_condition clock cond wt iv = Some out))"
proof -
  have last: "wait_for_condition clock cond wt iv = Some (Inr r, n, sl) \<longrightarrow>
      (0 < n \<longrightarrow> cond (n - 1) = Inr r) \<and> (n = 0 \<longrightarrow> \<not> r) \<and> (0 < n \<longleftrightarrow> clock 1 - clock 0 < wt)"
  proof
    assume "wait_for_condition clock cond wt iv = Some (Inr r, n, sl)"
    then have "observed_from clock cond wt (clock 0) False 0 (Inr r, n, sl)"
      unfolding wait_for_condition_def by (rule wait_for_condition_loop_observed)
    then show "(0 < n \<longrightarrow> cond (n - 1) = Inr r) \<and> (n = 0 \<longrightarrow> \<not> r)
        \<and> (0 < n \<longleftrightarrow> clock 1 - clock 0 < wt)"
      by (auto simp: observed_from_def)
  qed
  have expired: "wt \<le> 0 \<and> clock 0 \<le> clock 1 \<longrightarrow>
        wait_for_condition clock cond wt iv = Some (Inr False, 0, [])"
  proof
    assume "wt \<le> 0 \<and> clock 0 \<le> clock 1"
    then have "\<not> clock (Suc 0) - clock 0 < wt" by simp
    then show "wait_for_condition clock cond wt iv = Some (Inr False, 0, [])"
      unfolding wait_for_condition_def by (subst wait_for_condition_loop.simps) simp
  qed
  have returns: "(\<exists>K. \<not> clock (Suc K) - clock 0 < wt) \<longrightarrow>
        (\<exists>out. wait_for_condition clock cond wt iv = Some out)"
  proof
    assume "\<exists>K. \<not> clock (Suc K) - clock 0 < wt"
    then obtain K where "\<not> clock (Suc K) - clock 0 < wt" ..
    then show "\<exists>out. wait_for_condition clock cond wt iv = Some out"
      unfolding wait_for_condition_def by (rule wait_for_condition_loop_returns) simp
  qed
  from last expired returns show ?thesis by (intro conjI)
qed

theorem wait_for_condition_last_observed_witness:
  "wait_for_condition ticking always_False 2 (1 / 10) = Some (Inr False, 1, [1 / 10])
   \<and> always_False (1 - 1) = Inr False \<and> ticking 1 - ticking 0 < 2
   \<and> (0::rat) \<le> 0 \<and> ticking 0 \<le> ticking 1
   \<and> wait_for_condition ticking always_True 0 (1 / 10) = Some (Inr False, 0, [])
   \<and> \<not> ticking (Suc 2) - ticking 0 < 2"
proof -
  have run: "wait_for_condition ticking always_False 2 (1 / 10) = Some (Inr False, 1, [1 / 10])"
    by (simp add: wait_for_condition_def wait_for_condition_loop.simps ticking_def
        always_False_def)
  have clk: "(0::rat) \<le> 0 \<and> ticking 0 \<le> ticking 1" by (simp add: ticking_def)
  have late: "\<not> ticking (Suc 2) - ticking 0 < 2" by (simp add: ticking_def)
  show ?thesis
    using run clk late
      wait_for_condition_last_observed [of ticking always_False 2 "1 / 10" False 1 "[1 / 10]"]
      wait_for_condition_last_observed [of ticking always_True 0 "1 / 10"]
    by simp
qed

text \<open>
  Claim C5 as stated fails: with a timeout of \<open>0\<close> the predicate, which would answer
  \<open>True\<close>, is never sampled and \<open>False\<close> is returned.
\<close>

theorem wait_for_condition_samples_at_least_once_counterexample:
  "wait_for_condition ticking always_True 0 (1 / 10) = Some (Inr False, 0, [])
   \<and> always_True 0 = Inr True"
  by (simp add: wait_for_condition_def wait_for_condition_loop.simps ticking_def
      always_True_def)

text \<open>
  Claim C6. Both \<open>_wait_for_not\<close> (\<open>conftest.py\<close>) and \<open>wait_for_not\<close> (\<open>app.py\<close>) return
  \<open>False\<close> at the first sample that is false, after exactly one sleep per earlier (true)
  sample and none after the false one; for \<open>k = 0\<close> a predicate false at the first sample
  gives \<open>False\<close> with no sleep at all. When every sample made before the time check fails
  is true they return \<open>True\<close>.
\<close>

theorem wait_for_not_early_return:
  "((\<forall>j\<le>k. clock (Suc j) - clock 0 < wt) \<and> (\<forall>j<k. cond j = Inr True) \<and> cond k = Inr False
      \<and> (0 < k \<longrightarrow> 0 \<le> iv) \<longrightarrow>
        conftest_wait_for_not clock cond wt iv = Some (Inr False, Suc k, replicate k iv)
        \<and> wait_for_not clock cond wt iv = Some (Inr False, Suc k, replicate k iv))
   \<and> ((\<forall>j<K. clock (Suc j) - clock 0 < wt \<and> cond j = Inr True)
        \<and> \<not> clock (Suc K) - clock 0 < wt \<and> (0 < K \<longrightarrow> 0 \<le> iv) \<longrightarrow>
        conftest_wait_for_not clock cond wt iv = Some (Inr True, K, replicate K iv)
        \<and> wait_for_not clock cond wt iv = Some (Inr True, K, replicate K iv))"
proof (intro conjI impI)
  assume h: "(\<forall>j\<le>k. clock (Suc j) - clock 0 < wt) \<and> (\<forall>j<k. cond j = Inr True)
      \<and> cond k = Inr False \<and> (0 < k \<longrightarrow> 0 \<le> iv)"
  show "conftest_wait_for_not clock cond wt iv = Some (Inr False, Suc k, replicate k iv)"
    unfolding conftest_wait_for_not_def
    using conftest_wait_for_not_loop_early [of 0 k clock "clock 0" wt cond iv "[]"] h by simp
  show "wait_for_not clock cond wt iv = Some (Inr False, Suc k, replicate k iv)"
    unfolding wait_for_not_def
    using wait_for_not_loop_early [of 0 k clock "clock 0" wt cond iv "[]"] h by simp
next
  assume h: "(\<forall>j<K. clock (Suc j) - clock 0 < wt \<and> cond j = Inr True)
        \<and> \<not> clock (Suc K) - clock 0 < wt \<and> (0 < K \<longrightarrow> 0 \<le> iv)"
  show "conftest_wait_for_not clock cond wt iv = Some (Inr True, K, replicate K iv)"
    unfolding conftest_wait_for_not_def
    using conftest_wait_for_not_loop_timeout [of 0 K clock "clock 0" wt cond iv "[]"] h by simp
  show "wait_for_not clock cond wt iv = Some (Inr True, K, replicate K iv)"
    unfolding wait_for_not_def
    using wait_for_not_loop_timeout [of 0 K clock "clock 0" wt cond iv "[]"] h by simp
qed

theorem wait_for_not_early_return_witness:
  "ticking (Suc 0) - ticking 0 < 5 \<and> always_False 0 = Inr False
   \<and> conftest_wait_for_not ticking always_False 5 (1 / 10) = Some (Inr False, 1, [])
   \<and> wait_for_not ticking always_False 5 (1 / 10) = Some (Inr False, 1, [])
   \<and> True_twice 2 = Inr False
   \<and> conftest_wait_for_not ticking True_twice 5 (1 / 10) = Some (Inr False, 3, [1 / 10, 1 / 10])
   \<and> \<not> ticking (Suc 2) - ticking 0 < 3
   \<and> conftest_wait_for_not ticking always_True 3 (1 / 10) = Some (Inr True, 2, [1 / 10, 1 / 10])
   \<and> wait_for_not ticking always_True 3 (1 / 10) = Some (Inr True, 2, [1 / 10, 1 / 10])"
proof -
  have a: "(\<forall>j\<le>0. ticking (Suc j) - ticking 0 < 5) \<and> (\<forall>j<0. always_False j = Inr True)
      \<and> always_False 0 = Inr False \<and> ((0::nat) < 0 \<longrightarrow> (0::rat) \<le> 1 / 10)"
    by (simp add: ticking_def always_False_def)
  have b: "(\<forall>j\<le>2. ticking (Suc j) - ticking 0 < 5) \<and> (\<forall>j<2. True_twice j = Inr True)
      \<and> True_twice 2 = Inr False \<and> ((0::nat) < 2 \<longrightarrow> (0::rat) \<le> 1 / 10)"
    by (auto simp: ticking_def True_twice_def)
  have c: "(\<forall>j<2. ticking (Suc j) - ticking 0 < 3 \<and> always_True j = Inr True)
        \<and> \<not> ticking (Suc 2) - ticking 0 < 3 \<and> ((0::nat) < 2 \<longrightarrow> (0::rat) \<le> 1 / 10)"
    by (auto simp: ticking_def always_True_def)
  have two: "replicate 2 (1 / 10 :: rat) = [1 / 10, 1 / 10]" by (simp add: numeral_2_eq_2)
  show ?thesis
    using a b c two
      wait_for_not_early_return [of 0 ticking 5 always_False "1 / 10"]
      wait_for_not_early_return [of 2 ticking 5 True_twice "1 / 10"]
      wait_for_not_early_return [of _ ticking 3 always_True "1 / 10" 2]
    by (simp add: ticking_def)
qed

section \<open>Propagation of failures through the call surface\<close>

lemma new_calls_same [simp]: "new_calls w w = []"
  by (simp add: new_calls_def)

lemma new_calls_one [simp]: "new_calls w (w\<lparr>calls := calls w @ cs\<rparr>) = cs"
  by (simp add: new_calls_def)

lemma propagates_remote: "propagates (remote self i) w"
  by (simp add: propagates_def comp_defs failure_reaches_caller_def
      split: sum.splits prod.splits)

lemma propagates_then_pure:
  assumes "propagates m w"
  shows "propagates (bind_c m (\<lambda>x. lift_c (g x))) w"
  using assms
  by (auto simp: propagates_def bind_c_def lift_c_def failure_reaches_caller_def list_all_iff
      split: sum.splits prod.splits)



lemma propagates_then_unchanged:
  assumes "propagates m w" and "\<And>x w'. snd (f x w') = w'"
  shows "propagates (bind_c m f) w"
proof (cases "m w")
  case (Pair r w')
  show ?thesis
  proof (cases r)
    case (Inl e)
    with Pair assms(1) show ?thesis by (simp add: propagates_def bind_c_def)
  next
    case (Inr x)
    obtain r' where f: "f x w' = (r', w')" using assms(2)[of x w'] by (cases "f x w'") simp
    from Pair Inr assms(1) have "\<forall>c\<in>set (new_calls w w'). \<forall>e. snd c \<noteq> Inl e"
      by (auto simp: propagates_def failure_reaches_caller_def list_all_iff split: sum.splits)
    then have "list_all (failure_reaches_caller r') (new_calls w w')"
      by (auto simp: failure_reaches_caller_def list_all_iff split: sum.splits)
    with Pair Inr f show ?thesis by (simp add: propagates_def bind_c_def)
  qed
qed

lemma snd_return_c [simp]: "snd (return_c x w) = w"
  by (simp add: return_c_def)

lemma snd_lift_c [simp]: "snd (lift_c r w) = w"
  by (simp add: lift_c_def)

lemma snd_bind_lift [simp]: "(\<And>x w'. snd (f x w') = w') \<Longrightarrow> snd (bind_c (lift_c r) f w) = w"
  by (cases r) (simp_all add: bind_c_def lift_c_def)

lemma propagates_invoke: "propagates (invoke self name args) w"
  by (simp add: invoke_def propagates_remote)

lemma propagates_prop_get: "propagates (prop_get self name) w"
  by (simp add: prop_get_def propagates_remote)

lemma propagates_prop_put: "propagates (prop_put self name v) w"
  by (simp add: prop_put_def propagates_remote)

lemma propagates_bool_prop: "propagates (bool_prop self name) w"
  unfolding bool_prop_def by (rule propagates_then_unchanged [OF propagates_prop_get]) simp

lemmas propagates_basic = propagates_invoke propagates_prop_get propagates_prop_put
  propagates_bool_prop

lemma propagates_control: "propagates (perform_control x self) w"
  by (cases x)
    (simp_all add: propagates_basic RunTest_def OpenTest_def EditTest_def StartTest_def
      StopTest_def AbortEdit_def SaveData_def Minimize_def Restore_def Maximize_def
      Activate_def MenuCommand_def)

lemma propagates_Status: "propagates (Status self) w"
  unfolding Status_def
  by (rule propagates_then_unchanged [OF propagates_invoke])
    (simp add: bind_c_def lift_c_def return_c_def split: sum.splits list.splits)

lemma propagates_status: "propagates (perform_status x self) w"
  by (cases x)
    (simp_all add: propagates_basic propagates_Status IsRunning_def IsStarting_def
      IsChangingLevel_def IsHoldLevel_def IsOpenLoop_def IsAborted_def CanResumeTest_def
      IsReady_def ResumeTest_def)


lemma propagates_Demand: "propagates (Demand self) w"
  by (simp add: Demand_def GetHardwareOutputChannels_def propagates_def comp_defs
      failure_reaches_caller_def new_calls_def split: sum.splits option.splits prod.splits)

lemma propagates_Control: "propagates (Control self) w"
  by (simp add: Control_def GetHardwareOutputChannels_def propagates_def comp_defs
      failure_reaches_caller_def new_calls_def split: sum.splits option.splits prod.splits)

lemma propagates_Output: "propagates (Output self) w"
  by (simp add: Output_def GetHardwareOutputChannels_def propagates_def comp_defs
      failure_reaches_caller_def new_calls_def split: sum.splits option.splits prod.splits)

lemma propagates_RearInput: "propagates (RearInput self) w"
  by (simp add: RearInput_def propagates_def comp_defs
      failure_reaches_caller_def new_calls_def split: sum.splits option.splits prod.splits)


lemma propagates_data:
  "x \<noteq> OpChannel \<Longrightarrow> \<forall>a b. x \<noteq> OpVector a b \<Longrightarrow> propagates (perform_data x self) w"
  by (cases x)
    (auto simp: propagates_Demand propagates_Control propagates_Output propagates_RearInput)

lemma propagates_vector: "\<forall>c. x \<noteq> OpTeds c \<Longrightarrow> propagates (perform_vector x self) w"
  by (cases x)
    (auto simp: propagates_basic VectorUnit_def VectorLabel_def VectorLength_def
      ControlUnit_def ControlLabel_def ChannelUnit_def ChannelLabel_def ReportField_def
      RearInputUnit_def RearInputLabel_def)

lemma propagates_setter:
  "propagates (bind_c (prop_put self name u) (\<lambda>_. return_c v)) w"
  by (rule propagates_then_unchanged [OF propagates_prop_put]) simp

lemma propagates_channel_setter:
  "propagates (bind_c (invoke self name args) (\<lambda>_. return_c v)) w"
  by (rule propagates_then_unchanged [OF propagates_invoke]) simp

lemma bind_lift_Inr: "bind_c (lift_c (Inr x)) f = f x"
  by (rule ext) (simp add: bind_c_def lift_c_def)

lemma bind_lift_Inl: "bind_c (lift_c (Inl e)) f = lift_c (Inl e)"
  by (rule ext) (simp add: bind_c_def lift_c_def)

lemma propagates_lift: "propagates (lift_c r) w"
  by (simp add: propagates_def lift_c_def)

lemma propagates_TestType: "propagates (TestType self v) w"
  by (cases "py_int v")
    (simp_all add: TestType_def propagates_basic propagates_setter bind_lift_Inr
      bind_lift_Inl propagates_lift)

lemma propagates_sine: "propagates (perform_sine x self) w"
  by (cases x)
    (simp_all add: propagates_basic propagates_setter propagates_TestType SweepUp_def
      SweepDown_def SweepStepUp_def SweepStepDown_def SweepHold_def SweepResonanceHold_def
      DemandMultiplier_def SweepMultiplier_def SystemCheckFrequency_def
      SystemCheckOutputVoltage_def SineFrequency_def)

lemma propagates_input: "propagates (perform_input x self) w"
  by (cases x)
    (simp_all add: propagates_basic propagates_channel_setter GetHardwareInputChannels_def
      GetHardwareOutputChannels_def GetHardwareSerialNumber_def GetSoftwareVersion_def
      InputCalDate_def InputSerialNumber_def InputCapacitorCoupled_def
      InputAccelPowerSource_def InputDifferential_def InputSensitivity_def
      InputEngineeringScale_def InputMode_def InputCalibration_def
      HardwareSupportsCapacitorCoupled_def HardwareSupportsAccelPowerSource_def
      HardwareSupportsDifferential_def)

lemma propagates_record: "propagates (perform_record x self) w"
  by (cases x)
    (simp_all add: propagates_basic GetActiveTest_def RecordStart_def RecordStop_def
      RecordPause_def RecordGetFilename_def SetInputConfigurationFile_def)

lemma propagates_perform: "\<not> has_handler op \<Longrightarrow> propagates (perform op self) w"
proof (cases op)
  case (DataOp d)
  assume "\<not> has_handler op"
  with DataOp have "d \<noteq> OpChannel" and "\<forall>a b. d \<noteq> OpVector a b"
    by (auto simp: has_handler_def)
  then show ?thesis using DataOp by (simp add: propagates_data)
next
  case (VectorOp v)
  assume "\<not> has_handler op"
  with VectorOp have "\<forall>c. v \<noteq> OpTeds c" by (auto simp: has_handler_def)
  then show ?thesis using VectorOp by (simp add: propagates_vector)
qed (simp_all add: propagates_control propagates_status propagates_sine propagates_input
    propagates_record)

lemma Channel_swallows:
  "(\<exists>v. fst (Channel self w) = Inr v)
   \<and> ((\<exists>c\<in>set (new_calls w (snd (Channel self w))). isl (snd c)) \<longrightarrow>
        fst (Channel self w) = Inr (VList []))"
  by (simp add: Channel_def GetHardwareInputChannels_def comp_defs new_calls_def
      split: sum.splits option.splits prod.splits)

lemma Teds_count_failure:
  "self_vv self = Inr ep \<and> ep (calls w) (PropGet ''HardwareInputChannels'') = Inl e \<longrightarrow>
     fst (Teds self c w) = Inr (VList [])"
  by (simp add: Teds_def GetHardwareInputChannels_def return_c_def lift_c_def bind_c_def
      try_c_def remote_def ask_def prop_get_def Let_def split: sum.splits)

lemma teds_channel_wraps:
  assumes "self_vv self = Inr ep"
  shows "\<exists>d. teds_channel self (VInt c) w =
             (Inr d, w\<lparr>calls := calls w @
                [(Invoke ''Teds'' [VInt c, allocatedStringArray],
                  ep (calls w) (Invoke ''Teds'' [VInt c, allocatedStringArray]))]\<rparr>)
           \<and> wraps c (Invoke ''Teds'' [VInt c, allocatedStringArray],
                       ep (calls w) (Invoke ''Teds'' [VInt c, allocatedStringArray])) d"
proof (cases "ep (calls w) (Invoke ''Teds'' [VInt c, allocatedStringArray])")
  case (Inl e)
  with assms show ?thesis
    by (simp add: teds_channel_def Let_def return_c_def lift_c_def bind_c_def try_c_def
        remote_def ask_def invoke_def wraps_def entry_field_def teds_error_entry_def)
next
  case (Inr tedsInfo)
  with assms show ?thesis
    by (cases "py_iter tedsInfo"; cases "teds_info_clean (projr (py_iter tedsInfo))")
      (simp_all add: teds_channel_def Let_def return_c_def lift_c_def bind_c_def try_c_def
        remote_def ask_def invoke_def wraps_def entry_field_def)
qed

lemma teds_loop_wraps:
  assumes "self_vv self = Inr ep"
  shows "\<exists>ds cl. teds_loop self (map VInt cs) acc w = (Inr (acc @ ds), w\<lparr>calls := calls w @ cl\<rparr>)
            \<and> length ds = length cs \<and> length cl = length cs
            \<and> (\<forall>i<length cs. wraps (cs ! i) (cl ! i) (ds ! i))"
proof (induction cs arbitrary: acc w)
  case Nil
  show ?case by (simp add: return_c_def)
next
  case (Cons c cs)
  let ?call = "(Invoke ''Teds'' [VInt c, allocatedStringArray],
                ep (calls w) (Invoke ''Teds'' [VInt c, allocatedStringArray]))"
  let ?w1 = "w\<lparr>calls := calls w @ [?call]\<rparr>"
  from teds_channel_wraps [OF assms, of c w] obtain d where
    d: "teds_channel self (VInt c) w = (Inr d, ?w1)" "wraps c ?call d" by blast
  from Cons [of "acc @ [d]" ?w1] obtain ds cl where
    rest: "teds_loop self (map VInt cs) (acc @ [d]) ?w1
             = (Inr ((acc @ [d]) @ ds), ?w1\<lparr>calls := calls ?w1 @ cl\<rparr>)"
      "length ds = length cs" "length cl = length cs"
      "\<forall>i<length cs. wraps (cs ! i) (cl ! i) (ds ! i)" by blast
  have "teds_loop self (map VInt (c # cs)) acc w
          = (Inr (acc @ d # ds), w\<lparr>calls := calls w @ ?call # cl\<rparr>)"
    using d(1) rest(1) by (simp add: bind_c_def)
  moreover have "\<forall>i<length (c # cs). wraps ((c # cs) ! i) ((?call # cl) ! i) ((d # ds) ! i)"
    using d(2) rest(4) by (auto simp: nth_Cons split: nat.splits)
  ultimately show ?case
    using rest(2,3) by (intro exI [of _ "d # ds"] exI [of _ "?call # cl"]) simp
qed

lemma Teds_all_channels:
  assumes "self_vv self = Inr ep"
    and "ep (calls w) (PropGet ''HardwareInputChannels'') = Inr (VInt n)"
  shows "\<exists>ds cl. fst (Teds self VNone w) = Inr (VList ds)
            \<and> new_calls w (snd (Teds self VNone w))
                = (PropGet ''HardwareInputChannels'', Inr (VInt n)) # cl
            \<and> length ds = nat n \<and> length cl = nat n
            \<and> (\<forall>i<nat n. wraps (int i) (cl ! i) (ds ! i))"
proof -
  let ?count = "(PropGet ''HardwareInputChannels'', Inr (VInt n) :: response)"
  let ?w1 = "w\<lparr>calls := calls w @ [?count]\<rparr>"
  let ?cs = "map int [0..<nat n]"
  from teds_loop_wraps [OF assms(1), of ?cs "[]" ?w1] obtain ds cl where
    loop: "teds_loop self (map VInt ?cs) [] ?w1 = (Inr ([] @ ds), ?w1\<lparr>calls := calls ?w1 @ cl\<rparr>)"
      "length ds = length ?cs" "length cl = length ?cs"
      "\<forall>i<length ?cs. wraps (?cs ! i) (cl ! i) (ds ! i)" by blast
  have range: "py_range (VInt n) = Inr (map VInt ?cs)" by (simp add: comp_def)
  have "Teds self VNone w = (Inr (VList ds), w\<lparr>calls := calls w @ ?count # cl\<rparr>)"
    using assms loop(1) range
    by (simp add: Teds_def GetHardwareInputChannels_def Let_def return_c_def lift_c_def
        bind_c_def try_c_def remote_def ask_def prop_get_def del: py_range.simps)
  then show ?thesis
    using loop(2,3,4) by (intro exI [of _ ds] exI [of _ cl]) (simp add: new_calls_def)
qed

lemma Teds_one_channel:
  assumes "self_vv self = Inr ep"
    and "ep (calls w) (PropGet ''HardwareInputChannels'') = Inr numChannels"
  shows "\<exists>d call. fst (Teds self (VInt c) w) = Inr (VList [d])
            \<and> new_calls w (snd (Teds self (VInt c) w))
                = [(PropGet ''HardwareInputChannels'', Inr numChannels), call]
            \<and> wraps c call d"
proof -
  let ?count = "(PropGet ''HardwareInputChannels'', Inr numChannels :: response)"
  let ?w1 = "w\<lparr>calls := calls w @ [?count]\<rparr>"
  from teds_loop_wraps [OF assms(1), of "[c]" "[]" ?w1] obtain ds cl where
    loop: "teds_loop self [VInt c] [] ?w1 = (Inr ds, ?w1\<lparr>calls := calls ?w1 @ cl\<rparr>)"
      "length ds = 1" "length cl = 1" "wraps c (cl ! 0) (ds ! 0)" by auto
  from loop(2,3) obtain d call where one: "ds = [d]" "cl = [call]"
    by (cases ds; cases cl) auto
  have "Teds self (VInt c) w = (Inr (VList [d]), w\<lparr>calls := calls w @ [?count, call]\<rparr>)"
    using assms loop(1) one
    by (simp add: Teds_def GetHardwareInputChannels_def Let_def return_c_def lift_c_def
        bind_c_def try_c_def remote_def ask_def prop_get_def)
  then show ?thesis
    using loop(4) one by (intro exI [of _ d] exI [of _ call]) (simp add: new_calls_def)
qed

text \<open>
  Claim C8, as amended. Every operation of the call surface other than \<open>Channel\<close>,
  \<open>Vector\<close> and \<open>Teds\<close> ends with the exception of any remote call that failed.
  \<open>Channel\<close> never raises and returns the empty list whenever a remote call of it failed.
  \<open>Teds\<close> returns the empty list when the channel-count query fails; when that query
  succeeds it makes the TEDS call of every requested channel (all \<open>n\<close> channels in order
  when none is given) and returns one entry per channel, carrying the 1-based channel
  number, and the entry of a channel whose call raised is the error record of that
  exception: a failing channel does not end the retrieval.
\<close>

theorem only_handlers_swallow:
  "(\<not> has_handler op \<longrightarrow> propagates (perform op self) w)
   \<and> (\<exists>v. fst (Channel self w) = Inr v)
   \<and> ((\<exists>c\<in>set (new_calls w (snd (Channel self w))). isl (snd c)) \<longrightarrow>
        fst (Channel self w) = Inr (VList []))
   \<and> (self_vv self = Inr ep \<and> ep (calls w) (PropGet ''HardwareInputChannels'') = Inl e \<longrightarrow>
        fst (Teds self c w) = Inr (VList []))
   \<and> (self_vv self = Inr ep
        \<and> ep (calls w) (PropGet ''HardwareInputChannels'') = Inr (VInt n) \<longrightarrow>
        (\<exists>ds cl. fst (Teds self VNone w) = Inr (VList ds)
            \<and> new_calls w (snd (Teds self VNone w))
                = (PropGet ''HardwareInputChannels'', Inr (VInt n)) # cl
            \<and> length ds = nat n \<and> length cl = nat n
            \<and> (\<forall>i<nat n. wraps (int i) (cl ! i) (ds ! i))))
   \<and> (self_vv self = Inr ep
        \<and> ep (calls w) (PropGet ''HardwareInputChannels'') = Inr numChannels \<longrightarrow>
        (\<exists>d call. fst (Teds self (VInt k) w) = Inr (VList [d])
            \<and> new_calls w (snd (Teds self (VInt k) w))
                = [(PropGet ''HardwareInputChannels'', Inr numChannels), call]
            \<and> wraps k call d))"
  using propagates_perform [of op self w] Channel_swallows [of self w]
    Teds_count_failure [of self ep w e c] Teds_all_channels [of self ep w n]
    Teds_one_channel [of self ep w numChannels k]
  by blast

theorem only_handlers_swallow_witness:
  "\<not> has_handler (SineOp (OpSweepMultiplier (VFloat 2)))
   \<and> propagates (perform (SineOp (OpSweepMultiplier (VFloat 2))) (live channel_call_fails)) world0
   \<and> fst (SweepMultiplier (live channel_call_fails) (VFloat 2) world0)
       = Inl (com_error (- 2147352567))
   \<and> (\<exists>c\<in>set (new_calls world0 (snd (Channel (live channel_call_fails) world0))). isl (snd c))
   \<and> fst (Channel (live channel_call_fails) world0) = Inr (VList [])
   \<and> self_vv (live vector_call_fails) = Inr vector_call_fails
   \<and> vector_call_fails (calls world0) (PropGet ''HardwareInputChannels'')
       = Inl (com_error (- 2147352567))
   \<and> fst (Teds (live vector_call_fails) VNone world0) = Inr (VList [])
   \<and> self_vv (live channel_call_fails) = Inr channel_call_fails
   \<and> channel_call_fails (calls world0) (PropGet ''HardwareInputChannels'') = Inr (VInt 4)
   \<and> fst (Teds (live channel_call_fails) VNone world0)
       = Inr (VList (map (\<lambda>c. teds_error_entry c (com_error (- 2147352567))) [0, 1, 2, 3]))
   \<and> fst (Teds (live channel_call_fails) (VInt 2) world0)
       = Inr (VList [teds_error_entry 2 (com_error (- 2147352567))])"
proof -
  have a: "\<not> has_handler (SineOp (OpSweepMultiplier (VFloat 2)))"
    by (simp add: has_handler_def)
  have b: "fst (SweepMultiplier (live channel_call_fails) (VFloat 2) world0)
       = Inl (com_error (- 2147352567))"
    by (simp add: SweepMultiplier_def comp_defs live_def channel_call_fails_def world0_def)
  have c: "\<exists>c\<in>set (new_calls world0 (snd (Channel (live channel_call_fails) world0))).
      isl (snd c)"
    by (simp add: Channel_def GetHardwareInputChannels_def comp_defs live_def
        channel_call_fails_def world0_def new_calls_def)
  have d: "self_vv (live vector_call_fails) = Inr vector_call_fails
      \<and> vector_call_fails (calls world0) (PropGet ''HardwareInputChannels'')
          = Inl (com_error (- 2147352567))"
    by (simp add: self_vv_def live_def vector_call_fails_def)
  have e: "self_vv (live channel_call_fails) = Inr channel_call_fails
      \<and> channel_call_fails (calls world0) (PropGet ''HardwareInputChannels'') = Inr (VInt 4)"
    by (simp add: self_vv_def live_def channel_call_fails_def)
  have f: "fst (Teds (live channel_call_fails) VNone world0)
       = Inr (VList (map (\<lambda>c. teds_error_entry c (com_error (- 2147352567))) [0, 1, 2, 3]))
     \<and> fst (Teds (live channel_call_fails) (VInt 2) world0)
       = Inr (VList [teds_error_entry 2 (com_error (- 2147352567))])"
    by (simp add: Teds_def teds_channel_def GetHardwareInputChannels_def comp_defs live_def
        channel_call_fails_def world0_def teds_error_entry_def upt_rec)
  show ?thesis
    using a b c d e f
      only_handlers_swallow [of "SineOp (OpSweepMultiplier (VFloat 2))"
        "live channel_call_fails" world0]
      only_handlers_swallow [where self = "live vector_call_fails" and w = world0
        and ep = vector_call_fails and e = "com_error (- 2147352567)" and c = VNone]
      only_handlers_swallow [where self = "live channel_call_fails" and w = world0
        and ep = channel_call_fails and n = 4 and numChannels = "VInt 4" and k = 2]
    by simp
qed

text \<open>
  Claim C8 as stated fails: \<open>Channel\<close> is neither \<open>Vector\<close> nor the per-channel wrapping of
  \<open>Teds\<close>, and with an endpoint whose \<open>Channel\<close> call raises it returns \<open>[]\<close>.
\<close>

theorem Channel_swallows_failure_counterexample:
  "\<not> propagates (perform (DataOp OpChannel) (live channel_call_fails)) world0
   \<and> fst (perform (DataOp OpChannel) (live channel_call_fails) world0) = Inr (VList [])
   \<and> map snd (calls (snd (perform (DataOp OpChannel) (live channel_call_fails) world0)))
       = [Inr (VInt 4), Inl (com_error (- 2147352567))]"
  by (simp add: propagates_def Channel_def GetHardwareInputChannels_def comp_defs live_def
      channel_call_fails_def world0_def new_calls_def failure_reaches_caller_def)

section \<open>Close\<close>

text \<open>
  Claim C2. Whatever the state of the handle (never assigned, \<open>None\<close>, or live) and on
  whatever threads, \<open>close()\<close> returns normally and leaves no live handle, and a second
  \<open>close()\<close> returns normally too, leaving the object as it was.
\<close>

theorem close_never_fails:
  "(case close t self w of
      (Inl e, w1) \<Rightarrow> False
    | (Inr self1, w1) \<Rightarrow>
        has_live_vv self1 = Inr False
        \<and> (case close t' self1 w1 of (Inl e, w2) \<Rightarrow> False | (Inr self2, w2) \<Rightarrow> self2 = self1))"
  by (simp add: close_def comp_defs has_live_vv_def vv_is_None_def split: option.splits)

theorem close_never_fails_witness:
  "fst (close 0 new_object world0) = Inr new_object
   \<and> fst (close 0 (live accepting) world0) = Inr ((live accepting)\<lparr>vv := Some None\<rparr>)
   \<and> fst (close 0 ((live accepting)\<lparr>vv := Some None\<rparr>)
             (snd (close 0 (live accepting) world0))) = Inr ((live accepting)\<lparr>vv := Some None\<rparr>)"
  using close_never_fails [where t = 0 and self = new_object and w = world0 and t' = 0]
    close_never_fails [where t = 0 and self = "live accepting" and w = world0 and t' = 0]
  by (simp add: close_def comp_defs has_live_vv_def vv_is_None_def new_object_def live_def)

section \<open>Getter/setter pairs\<close>

lemmas call_defs = Let_def return_c_def lift_c_def bind_c_def remote_def ask_def
  invoke_def prop_get_def prop_put_def

lemma setter_writes:
  assumes "self_vv self = Inr ep"
  shows "writes_and_returns (bind_c (remote self i) (\<lambda>_. return_c v)) ep i v w"
  using assms
  by (simp add: writes_and_returns_def single_call_def call_defs new_calls_def
      split: sum.splits)

lemma getter_reads:
  assumes "self_vv self = Inr ep"
  shows "reads (remote self i) ep i w"
  using assms
  by (simp add: reads_def single_call_def call_defs new_calls_def split: sum.splits)

text \<open>
  Claim C9, as amended. On a live session, each getter/setter pair other than \<open>TestType\<close>
  called with a value other than \<open>None\<close> makes exactly one interaction with the endpoint,
  the write of that value, and returns the value itself unless the write raised (no read
  follows). \<open>TestType\<close> first converts: when \<open>int(value)\<close> is an integer it writes that
  integer, in one interaction, and returns \<open>value\<close> itself; when \<open>int(value)\<close> raises, that
  exception is the outcome and no interaction is made. Every pair called with \<open>None\<close>
  makes exactly one read and returns the endpoint's answer.
\<close>

theorem setter_returns_written_value:
  assumes "self_vv self = Inr ep" and "\<not> is_None v"
  shows "writes_and_returns (DemandMultiplier self v) ep (PropPut ''DemandMultipler'' v) v w
    \<and> writes_and_returns (SweepMultiplier self v) ep (PropPut ''SweepMultiplier'' v) v w
    \<and> (case py_int v of
          Inr i \<Rightarrow> writes_and_returns (TestType self v) ep (PropPut ''TestType'' (VInt i)) v w
        | Inl e \<Rightarrow> TestType self v w = (Inl e, w))
    \<and> writes_and_returns (SystemCheckFrequency self v) ep
         (PropPut ''SystemCheckFrequency'' v) v w
    \<and> writes_and_returns (SystemCheckOutputVoltage self v) ep
         (PropPut ''SystemCheckOutputVoltage'' v) v w
    \<and> writes_and_returns (SineFrequency self v) ep (PropPut ''SineFrequency'' v) v w
    \<and> writes_and_returns (InputCapacitorCoupled self channel v) ep
         (Invoke ''InputCapacitorCoupled'' [channel, v]) v w
    \<and> writes_and_returns (InputAccelPowerSource self channel v) ep
         (Invoke ''InputAccelPowerSource'' [channel, v]) v w
    \<and> writes_and_returns (InputDifferential self channel v) ep
         (Invoke ''InputDifferential'' [channel, v]) v w
    \<and> reads (DemandMultiplier self VNone) ep (PropGet ''DemandMultipler'') w
    \<and> reads (SweepMultiplier self VNone) ep (PropGet ''SweepMultiplier'') w
    \<and> reads (TestType self VNone) ep (PropGet ''TestType'') w
    \<and> reads (SystemCheckFrequency self VNone) ep (PropGet ''SystemCheckFrequency'') w
    \<and> reads (SystemCheckOutputVoltage self VNone) ep (PropGet ''SystemCheckOutputVoltage'') w
    \<and> reads (SineFrequency self VNone) ep (PropGet ''SineFrequency'') w
    \<and> reads (InputCapacitorCoupled self channel VNone) ep
         (Invoke ''InputCapacitorCoupled'' [channel]) w
    \<and> reads (InputAccelPowerSource self channel VNone) ep
         (Invoke ''InputAccelPowerSource'' [channel]) w
    \<and> reads (InputDifferential self channel VNone) ep
         (Invoke ''InputDifferential'' [channel]) w"
proof -
  have test_type: "case py_int v of
          Inr i \<Rightarrow> writes_and_returns (TestType self v) ep (PropPut ''TestType'' (VInt i)) v w
        | Inl e \<Rightarrow> TestType self v w = (Inl e, w)"
  proof (cases "py_int v")
    case (Inl e)
    with assms(2) show ?thesis by (simp add: TestType_def bind_c_def lift_c_def)
  next
    case (Inr i)
    with assms(2) setter_writes [OF assms(1), of "PropPut ''TestType'' (VInt i)" v w]
    show ?thesis by (simp add: TestType_def bind_lift_Inr prop_put_def)
  qed
  show ?thesis
    using assms(2) test_type setter_writes [OF assms(1)] getter_reads [OF assms(1)]
    by (simp add: DemandMultiplier_def SweepMultiplier_def TestType_def
        SystemCheckFrequency_def SystemCheckOutputVoltage_def SineFrequency_def
        InputCapacitorCoupled_def InputAccelPowerSource_def InputDifferential_def
        prop_put_def prop_get_def invoke_def)
qed

theorem setter_returns_written_value_witness:
  "self_vv (live accepting) = Inr accepting \<and> \<not> is_None (VFloat (1 / 2))
   \<and> fst (SweepMultiplier (live accepting) (VFloat (1 / 2)) world0) = Inr (VFloat (1 / 2))
   \<and> calls (snd (SweepMultiplier (live accepting) (VFloat (1 / 2)) world0))
       = [(PropPut ''SweepMultiplier'' (VFloat (1 / 2)), Inr VNone)]
   \<and> calls (snd (SweepMultiplier (live accepting) VNone world0))
       = [(PropGet ''SweepMultiplier'', Inr VNone)]
   \<and> \<not> is_None (VInt 1) \<and> py_int (VInt 1) = Inr 1
   \<and> fst (TestType (live accepting) (VInt 1) world0) = Inr (VInt 1)
   \<and> calls (snd (TestType (live accepting) (VInt 1) world0))
       = [(PropPut ''TestType'' (VInt 1), Inr VNone)]"
proof -
  have live: "self_vv (live accepting) = Inr accepting" by (simp add: self_vv_def live_def)
  have given: "\<not> is_None (VFloat (1 / 2))" by simp
  have given': "\<not> is_None (VInt 1)" by simp
  show ?thesis
    using live given
      setter_returns_written_value [OF live given, where w = world0 and channel = VNone]
      setter_returns_written_value [OF live given', where w = world0 and channel = VNone]
    by (simp add: writes_and_returns_def reads_def single_call_def new_calls_def world0_def
        accepting_def)
qed

text \<open>
  Claim C9 as stated fails for \<open>TestType\<close>: with the argument \<open>'abc'\<close> it raises ValueError
  and writes nothing, and with the argument \<open>2.5\<close> it writes \<open>2\<close> and returns \<open>2.5\<close>, which
  is not the value just set.
\<close>

theorem TestType_converts_counterexample:
  "\<not> is_None (VStr ''abc'')
   \<and> TestType (live accepting) (VStr ''abc'') world0 = (Inl ValueError, world0)
   \<and> \<not> is_None (VFloat (5 / 2))
   \<and> fst (TestType (live accepting) (VFloat (5 / 2)) world0) = Inr (VFloat (5 / 2))
   \<and> calls (snd (TestType (live accepting) (VFloat (5 / 2)) world0))
       = [(PropPut ''TestType'' (VInt 2), Inr VNone)]"
  by (simp add: TestType_def comp_defs live_def accepting_def world0_def int_of_string_def
      is_space_def digit_of_def floor_unique)

section \<open>COM initialization per thread\<close>























section \<open>Operations on a session without a handle\<close>

lemma connect_attempts_not_ready:
  "\<exists>cs. calls (snd (connect_attempts ep as wt self w)) = calls w @ cs
        \<and> (list_all not_ready cs \<longrightarrow> vv (fst (connect_attempts ep as wt self w)) = vv self)"
proof (induction as arbitrary: wt w)
  case Nil
  show ?case by simp
next
  case (Cons a as)
  let ?r = "ep (calls w) (PropGet ''IsReady'')"
  let ?w1 = "w\<lparr>calls := calls w @ [(PropGet ''IsReady'', ?r)]\<rparr>"
  let ?w2 = "?w1\<lparr>slept := slept ?w1 @ [wt]\<rparr>"
  from Cons [of "wt * 2" ?w2] obtain cs where
    cs: "calls (snd (connect_attempts ep as (wt * 2) self ?w2)) = calls ?w2 @ cs"
      "list_all not_ready cs \<longrightarrow> vv (fst (connect_attempts ep as (wt * 2) self ?w2)) = vv self"
    by blast
  show ?case
  proof (cases ?r)
    case (Inl e)
    show ?thesis
    proof (cases "a = retryAttempts")
      case True
      with Inl show ?thesis by (simp add: ask_def Let_def)
    next
      case False
      with Inl cs show ?thesis
        by (intro exI [of _ "(PropGet ''IsReady'', ?r) # cs"]) (simp add: ask_def Let_def)
    qed
  next
    case (Inr ready)
    show ?thesis
    proof (cases "truthy ready")
      case True
      with Inr show ?thesis
        by (intro exI [of _ "[(PropGet ''IsReady'', ?r)]"]) (simp add: ask_def Let_def not_ready_def)
    next
      case False
      with Inr cs show ?thesis
        by (intro exI [of _ "(PropGet ''IsReady'', ?r) # cs"]) (simp add: ask_def Let_def)
    qed
  qed
qed

lemma init_com_calls: "calls (snd (init_com t self w)) = calls w \<and> vv (fst (init_com t self w)) = vv self"
  by (simp add: init_com_def Let_def CoInitialize_def)

lemma exhausted_is_dead:
  assumes "list_all not_ready (new_calls w (snd (VibrationVIEW_init t d w)))"
  shows "self_vv (fst (VibrationVIEW_init t d w)) = Inl AttributeError"
proof -
  obtain self1 w1 where ic: "init_com t new_object w = (self1, w1)"
    by (cases "init_com t new_object w")
  with init_com_calls [of t new_object w] have c1: "calls w1 = calls w" and v1: "vv self1 = None"
    by (simp_all add: new_object_def)
  show ?thesis
  proof (cases d)
    case (Inl e)
    with ic v1 show ?thesis by (simp add: VibrationVIEW_init_def self_vv_def)
  next
    case (Inr ep)
    let ?c = "connect_attempts ep [1..<Suc retryAttempts] (1 / 2) self1 w1"
    from connect_attempts_not_ready [of ep "[1..<Suc retryAttempts]" "1 / 2" self1 w1]
    obtain cs where cs: "calls (snd ?c) = calls w1 @ cs"
      "list_all not_ready cs \<longrightarrow> vv (fst ?c) = vv self1" by blast
    from Inr ic have eq: "VibrationVIEW_init t d w = ?c" by (simp add: VibrationVIEW_init_def)
    with cs(1) c1 have "new_calls w (snd (VibrationVIEW_init t d w)) = cs"
      by (simp add: new_calls_def)
    with assms cs(2) v1 eq show ?thesis by (simp add: self_vv_def)
  qed
qed

lemma dead_remote: "self_vv self = Inl AttributeError \<Longrightarrow> remote self i w = (Inl AttributeError, w)"
  by (simp add: remote_def bind_c_def lift_c_def)

lemmas dead_defs = invoke_def prop_get_def prop_put_def bool_prop_def bind_c_def lift_c_def
  return_c_def try_c_def dead_remote

lemma dead_control:
  "self_vv self = Inl AttributeError \<Longrightarrow> perform_control x self w = (Inl AttributeError, w)"
  by (cases x)
    (simp_all add: dead_defs RunTest_def OpenTest_def EditTest_def StartTest_def
      StopTest_def AbortEdit_def SaveData_def Minimize_def Restore_def Maximize_def
      Activate_def MenuCommand_def)

lemma dead_status:
  "self_vv self = Inl AttributeError \<Longrightarrow> perform_status x self w = (Inl AttributeError, w)"
  by (cases x)
    (simp_all add: dead_defs Status_def IsRunning_def IsStarting_def
      IsChangingLevel_def IsHoldLevel_def IsOpenLoop_def IsAborted_def CanResumeTest_def
      IsReady_def ResumeTest_def)

lemma dead_data:
  "self_vv self = Inl AttributeError \<Longrightarrow> x \<noteq> OpChannel
     \<Longrightarrow> perform_data x self w = (Inl AttributeError, w)"
  by (cases x)
    (simp_all add: dead_defs Demand_def Control_def Output_def RearInput_def Vector_def
      GetHardwareOutputChannels_def)

lemma dead_vector:
  "self_vv self = Inl AttributeError \<Longrightarrow> \<forall>c. x \<noteq> OpTeds c
     \<Longrightarrow> perform_vector x self w = (Inl AttributeError, w)"
  by (cases x)
    (auto simp: dead_defs VectorUnit_def VectorLabel_def VectorLength_def
      ControlUnit_def ControlLabel_def ChannelUnit_def ChannelLabel_def ReportField_def
      RearInputUnit_def RearInputLabel_def)

lemma dead_TestType:
  assumes "self_vv self = Inl AttributeError"
  shows "TestType self v w =
     (Inl (case conversion_error (SineOp (OpTestType v)) of
             None \<Rightarrow> AttributeError | Some e \<Rightarrow> e), w)"
proof (cases "is_None v")
  case True
  with assms show ?thesis by (simp add: TestType_def conversion_error_def dead_defs)
next
  case False
  with assms show ?thesis
    by (cases "py_int v") (simp_all add: TestType_def conversion_error_def dead_defs)
qed

lemma dead_sine:
  "self_vv self = Inl AttributeError \<Longrightarrow>
     perform_sine x self w =
       (Inl (case conversion_error (SineOp x) of None \<Rightarrow> AttributeError | Some e \<Rightarrow> e), w)"
  by (cases x)
    (simp_all add: dead_TestType,
      simp_all add: conversion_error_def dead_defs SweepUp_def SweepDown_def
        SweepStepUp_def SweepStepDown_def SweepHold_def SweepResonanceHold_def
        DemandMultiplier_def SweepMultiplier_def SystemCheckFrequency_def
        SystemCheckOutputVoltage_def SineFrequency_def)

lemma dead_input:
  "self_vv self = Inl AttributeError \<Longrightarrow> perform_input x self w = (Inl AttributeError, w)"
  by (cases x)
    (simp_all add: dead_defs GetHardwareInputChannels_def
      GetHardwareOutputChannels_def GetHardwareSerialNumber_def GetSoftwareVersion_def
      InputCalDate_def InputSerialNumber_def InputCapacitorCoupled_def
      InputAccelPowerSource_def InputDifferential_def InputSensitivity_def
      InputEngineeringScale_def InputMode_def InputCalibration_def
      HardwareSupportsCapacitorCoupled_def HardwareSupportsAccelPowerSource_def
      HardwareSupportsDifferential_def)

lemma dead_record:
  "self_vv self = Inl AttributeError \<Longrightarrow> perform_record x self w = (Inl AttributeError, w)"
  by (cases x)
    (simp_all add: dead_defs GetActiveTest_def RecordStart_def RecordStop_def
      RecordPause_def RecordGetFilename_def SetInputConfigurationFile_def)

lemma dead_perform:
  assumes "self_vv self = Inl AttributeError" and "\<not> has_outer_handler op"
  shows "perform op self w =
     (Inl (case conversion_error op of None \<Rightarrow> AttributeError | Some e \<Rightarrow> e), w)"
proof (cases op)
  case (DataOp d)
  with assms(2) have "d \<noteq> OpChannel" by (auto simp: has_outer_handler_def)
  with DataOp assms(1) show ?thesis by (simp add: dead_data conversion_error_def)
next
  case (VectorOp v)
  with assms(2) have "\<forall>c. v \<noteq> OpTeds c" by (auto simp: has_outer_handler_def)
  with VectorOp assms(1) show ?thesis by (simp add: dead_vector conversion_error_def)
next
  case (SineOp x)
  with assms(1) show ?thesis by (simp add: dead_sine)
qed (simp_all add: assms(1) dead_control dead_status dead_input dead_record
    conversion_error_def)

lemma dead_Channel_Teds:
  assumes "self_vv self = Inl AttributeError"
  shows "Channel self w = (Inr (VList []), w) \<and> Teds self c w = (Inr (VList []), w)"
  using assms by (simp add: Channel_def Teds_def GetHardwareInputChannels_def dead_defs)

text \<open>
  Claim C4, as amended. When no attempt of the constructor found the handle ready, the
  object has no usable handle (\<open>self.vv.<member>\<close> raises AttributeError). On such an
  object every operation of the call surface raises without reaching the endpoint:
  AttributeError from the handle access, or, for \<open>TestType\<close> with an argument that
  \<open>int\<close> rejects, the exception of that conversion. The exceptions are \<open>Channel\<close> and
  \<open>Teds\<close>, whose handlers return the empty list.
\<close>

theorem dead_session_fails_loudly:
  "(list_all not_ready (new_calls w (snd (VibrationVIEW_init t d w))) \<longrightarrow>
      self_vv (fst (VibrationVIEW_init t d w)) = Inl AttributeError)
   \<and> (self_vv self = Inl AttributeError \<longrightarrow>
        (\<not> has_outer_handler op \<longrightarrow>
           perform op self w =
             (Inl (case conversion_error op of None \<Rightarrow> AttributeError | Some e \<Rightarrow> e), w))
        \<and> Channel self w = (Inr (VList []), w)
        \<and> Teds self c w = (Inr (VList []), w))"
  using exhausted_is_dead [of w t d] dead_perform [of self op w] dead_Channel_Teds [of self w c]
  by blast

theorem dead_session_fails_loudly_witness:
  "list_all not_ready (new_calls world0 (snd first_session))
   \<and> self_vv (fst first_session) = Inl AttributeError
   \<and> \<not> has_outer_handler (StatusOp OpIsRunning)
   \<and> perform (StatusOp OpIsRunning) (fst first_session) world0 = (Inl AttributeError, world0)
   \<and> \<not> has_outer_handler (SineOp (OpTestType (VStr ''abc'')))
   \<and> perform (SineOp (OpTestType (VStr ''abc''))) (fst first_session) world0
       = (Inl ValueError, world0)
   \<and> Channel (fst first_session) world0 = (Inr (VList []), world0)"
proof -
  have a: "list_all not_ready (new_calls world0 (snd first_session))"
    by (simp add: first_session_def init_defs never_ready_def new_calls_def not_ready_def)
  have b: "\<not> has_outer_handler (StatusOp OpIsRunning)
      \<and> \<not> has_outer_handler (SineOp (OpTestType (VStr ''abc'')))"
    by (simp add: has_outer_handler_def)
  have conv: "conversion_error (StatusOp OpIsRunning) = None
      \<and> conversion_error (SineOp (OpTestType (VStr ''abc''))) = Some ValueError"
    by (simp add: conversion_error_def int_of_string_def is_space_def digit_of_def)
  from a dead_session_fails_loudly [where w = world0 and t = 0 and d = "Inr never_ready"]
  have c: "self_vv (fst first_session) = Inl AttributeError"
    by (simp add: first_session_def)
  show ?thesis
    using a b c conv
      dead_session_fails_loudly [where self = "fst first_session"
        and op = "StatusOp OpIsRunning" and w = world0]
      dead_session_fails_loudly [where self = "fst first_session"
        and op = "SineOp (OpTestType (VStr ''abc''))" and w = world0]
    by simp
qed

end
